theory Spec2Isabelle
  imports Complex_Main
begin

text \<open>
  A shallow embedding of the protocol core of the TelemetryFlow MCP server: the JSON-RPC
  message types and error codes of pkg/mcp with the stdio transport and the server loop,
  the error utilities and message helpers of pkg/claude, the error-code and content value
  objects, and the Claude API client (request validation, wire parameters, the retry loop,
  token counting and the streaming producer). Each section names the source file it
  follows. Logging and telemetry calls are left out: they have no effect on the values
  and effects modelled here.
\<close>

section \<open>Values shared by the packages\<close>

text \<open>
  A Go \<^verbatim>\<open>interface{}\<close> that ends up in a JSON document is modelled by the JSON value it
  encodes to; the nil interface is \<open>None\<close> of \<open>json option\<close>. A typed nil pointer stored in
  an interface is \<open>Some JNull\<close>: it is not the nil interface, and \<^verbatim>\<open>encoding/json\<close> writes
  it as \<^verbatim>\<open>null\<close>.
\<close>

datatype json =
    JNull
  | JBool bool
  | JNum int
  | JStr string
  | JArr "json list"
  | JObj "(string \<times> json) list"

section \<open>pkg/mcp: protocol (src/pkg/mcp/protocol.go)\<close>

definition ProtocolVersion :: string where
  "ProtocolVersion = ''2024-11-05''"

definition JSONRPCVersion :: string where
  "JSONRPCVersion = ''2.0''"

subsection \<open>JSON-RPC error codes\<close>

definition ParseError :: int where "ParseError = - 32700"
definition InvalidRequest :: int where "InvalidRequest = - 32600"
definition MethodNotFound :: int where "MethodNotFound = - 32601"
definition InvalidParams :: int where "InvalidParams = - 32602"
definition InternalError :: int where "InternalError = - 32603"
definition ServerError :: int where "ServerError = - 32000"
definition SessionNotFound :: int where "SessionNotFound = - 32001"
definition ToolNotFound :: int where "ToolNotFound = - 32002"
definition ResourceNotFound :: int where "ResourceNotFound = - 32003"
definition PromptNotFound :: int where "PromptNotFound = - 32004"
definition InvalidSessionState :: int where "InvalidSessionState = - 32005"

lemmas mcp_code_defs =
  ParseError_def InvalidRequest_def MethodNotFound_def InvalidParams_def InternalError_def
  ServerError_def SessionNotFound_def ToolNotFound_def ResourceNotFound_def PromptNotFound_def
  InvalidSessionState_def

subsection \<open>Request, Response, Error\<close>

text \<open>
  Field names that two structs share carry the struct's name as a suffix in the second
  struct (\<open>JSONRPC_Request\<close>, \<open>ID_Request\<close>).
\<close>

record Request =
  JSONRPC_Request :: string
  ID_Request :: "json option"
  Method :: string
  Params :: "json option"

record Error =
  Code :: int
  Message :: string
  Data :: "json option"

record Response =
  JSONRPC :: string
  ID :: "json option"
  Result :: "json option"
  Error :: "Error option"

definition NewError :: "int \<Rightarrow> string \<Rightarrow> json option \<Rightarrow> Error" where
  "NewError code message data = \<lparr>Code = code, Message = message, Data = data\<rparr>"

definition NewParseError :: "string \<Rightarrow> Error" where
  "NewParseError message = NewError ParseError message None"

definition NewInvalidRequestError :: "string \<Rightarrow> Error" where
  "NewInvalidRequestError message = NewError InvalidRequest message None"

definition NewMethodNotFoundError :: "string \<Rightarrow> Error" where
  "NewMethodNotFoundError method = NewError MethodNotFound (''method not found: '' @ method) None"

definition NewInvalidParamsError :: "string \<Rightarrow> Error" where
  "NewInvalidParamsError message = NewError InvalidParams message None"

definition NewInternalError :: "string \<Rightarrow> Error" where
  "NewInternalError message = NewError InternalError message None"

definition NewSessionNotFoundError :: "string \<Rightarrow> Error" where
  "NewSessionNotFoundError sessionID =
     NewError SessionNotFound (''session not found: '' @ sessionID) None"

definition NewToolNotFoundError :: "string \<Rightarrow> Error" where
  "NewToolNotFoundError toolName = NewError ToolNotFound (''tool not found: '' @ toolName) None"

definition NewResourceNotFoundError :: "string \<Rightarrow> Error" where
  "NewResourceNotFoundError uri = NewError ResourceNotFound (''resource not found: '' @ uri) None"

definition NewPromptNotFoundError :: "string \<Rightarrow> Error" where
  "NewPromptNotFoundError promptName =
     NewError PromptNotFound (''prompt not found: '' @ promptName) None"

definition NewResponse :: "json option \<Rightarrow> json option \<Rightarrow> Response" where
  "NewResponse ident result =
     \<lparr>JSONRPC = JSONRPCVersion, ID = ident, Result = result, Error = None\<rparr>"

definition NewErrorResponse :: "json option \<Rightarrow> Error option \<Rightarrow> Response" where
  "NewErrorResponse ident err =
     \<lparr>JSONRPC = JSONRPCVersion, ID = ident, Result = None, Error = err\<rparr>"

subsection \<open>What json.Marshal writes for the tagged structs\<close>

text \<open>
  \<^verbatim>\<open>encoding/json\<close> is the Go standard library, not code of the repository. Its rule for
  the struct tags used here is taken as documented: fields are written in declaration
  order under the tag's name, and a field tagged \<^verbatim>\<open>omitempty\<close> is left out when it holds
  the nil interface or a nil pointer. The serialized form is kept as the ordered list of
  members of the JSON object; the rendering of that object to bytes is not modelled.
  \<^verbatim>\<open>
  type Response struct {
      JSONRPC string      `json:"jsonrpc"`
      ID      interface{} `json:"id,omitempty"`
      Result  interface{} `json:"result,omitempty"`
      Error   *Error      `json:"error,omitempty"`
  }
  type Error struct {
      Code    int         `json:"code"`
      Message string      `json:"message"`
      Data    interface{} `json:"data,omitempty"`
  }
  \<close>
\<close>

definition omitempty :: "string \<Rightarrow> json option \<Rightarrow> (string \<times> json) list" where
  "omitempty name v = (case v of None \<Rightarrow> [] | Some j \<Rightarrow> [(name, j)])"

definition marshal_Error :: "Error \<Rightarrow> json" where
  "marshal_Error e =
     JObj ([(''code'', JNum (Code e)), (''message'', JStr (Message e))]
           @ omitempty ''data'' (Data e))"

definition marshal_Response :: "Response \<Rightarrow> (string \<times> json) list" where
  "marshal_Response r =
     [(''jsonrpc'', JStr (JSONRPC r))]
     @ omitempty ''id'' (ID r)
     @ omitempty ''result'' (Result r)
     @ omitempty ''error'' (map_option marshal_Error (Error r))"

definition has_member :: "string \<Rightarrow> (string \<times> json) list \<Rightarrow> bool" where
  "has_member name members = (map_of members name \<noteq> None)"

definition exactly_one_of_result_error :: "(string \<times> json) list \<Rightarrow> bool" where
  "exactly_one_of_result_error members =
     (has_member ''result'' members \<noteq> has_member ''error'' members)"

section \<open>Value objects: MCPErrorCode (src/internal/domain/valueobjects/identifiers_test.go)\<close>

text \<open>
  The value-object package declares an error-code enumeration of its own
  (\<^verbatim>\<open>type MCPErrorCode int\<close>), with its classification and message functions.
\<close>

type_synonym MCPErrorCode = int

definition ErrorCodeParseError :: MCPErrorCode where "ErrorCodeParseError = - 32700"
definition ErrorCodeInvalidRequest :: MCPErrorCode where "ErrorCodeInvalidRequest = - 32600"
definition ErrorCodeMethodNotFound :: MCPErrorCode where "ErrorCodeMethodNotFound = - 32601"
definition ErrorCodeInvalidParams :: MCPErrorCode where "ErrorCodeInvalidParams = - 32602"
definition ErrorCodeInternalError :: MCPErrorCode where "ErrorCodeInternalError = - 32603"
definition ErrorCodeToolNotFound :: MCPErrorCode where "ErrorCodeToolNotFound = - 32001"
definition ErrorCodeResourceNotFound :: MCPErrorCode where "ErrorCodeResourceNotFound = - 32002"
definition ErrorCodePromptNotFound :: MCPErrorCode where "ErrorCodePromptNotFound = - 32003"
definition ErrorCodeToolExecutionError :: MCPErrorCode where "ErrorCodeToolExecutionError = - 32004"
definition ErrorCodeResourceReadError :: MCPErrorCode where "ErrorCodeResourceReadError = - 32005"
definition ErrorCodeUnauthorized :: MCPErrorCode where "ErrorCodeUnauthorized = - 32006"
definition ErrorCodeRateLimited :: MCPErrorCode where "ErrorCodeRateLimited = - 32007"
definition ErrorCodeTimeout :: MCPErrorCode where "ErrorCodeTimeout = - 32008"
definition ErrorCodeCancelled :: MCPErrorCode where "ErrorCodeCancelled = - 32009"

lemmas vo_code_defs =
  ErrorCodeParseError_def ErrorCodeInvalidRequest_def ErrorCodeMethodNotFound_def
  ErrorCodeInvalidParams_def ErrorCodeInternalError_def ErrorCodeToolNotFound_def
  ErrorCodeResourceNotFound_def ErrorCodePromptNotFound_def ErrorCodeToolExecutionError_def
  ErrorCodeResourceReadError_def ErrorCodeUnauthorized_def ErrorCodeRateLimited_def
  ErrorCodeTimeout_def ErrorCodeCancelled_def

definition IsStandardError :: "MCPErrorCode \<Rightarrow> bool" where
  "IsStandardError e = (e \<le> - 32600 \<and> e \<ge> - 32700)"

definition IsMCPError :: "MCPErrorCode \<Rightarrow> bool" where
  "IsMCPError e = (e \<ge> - 32099 \<and> e \<le> - 32000)"

definition Message_MCPErrorCode :: "MCPErrorCode \<Rightarrow> string" where
  "Message_MCPErrorCode e =
     (if e = ErrorCodeParseError then ''Parse error''
      else if e = ErrorCodeInvalidRequest then ''Invalid Request''
      else if e = ErrorCodeMethodNotFound then ''Method not found''
      else if e = ErrorCodeInvalidParams then ''Invalid params''
      else if e = ErrorCodeInternalError then ''Internal error''
      else if e = ErrorCodeToolNotFound then ''Tool not found''
      else if e = ErrorCodeResourceNotFound then ''Resource not found''
      else if e = ErrorCodePromptNotFound then ''Prompt not found''
      else if e = ErrorCodeToolExecutionError then ''Tool execution error''
      else if e = ErrorCodeResourceReadError then ''Resource read error''
      else if e = ErrorCodeUnauthorized then ''Unauthorized''
      else if e = ErrorCodeRateLimited then ''Rate limited''
      else if e = ErrorCodeTimeout then ''Request timeout''
      else if e = ErrorCodeCancelled then ''Request cancelled''
      else ''Unknown error'')"

section \<open>Go error values\<close>

text \<open>
  An error value is one of: a package-level sentinel made by \<^verbatim>\<open>errors.New\<close> (compared by
  identity, so modelled by its name); an anonymous error made by \<^verbatim>\<open>errors.New\<close> or by
  \<^verbatim>\<open>fmt.Errorf\<close> without \<^verbatim>\<open>%w\<close>; an error made by \<^verbatim>\<open>fmt.Errorf\<close> around a \<^verbatim>\<open>%w\<close> operand
  (text before, wrapped error, text after); an \<^verbatim>\<open>*APIError\<close> of pkg/claude; \<^verbatim>\<open>io.EOF\<close>; or
  one of the two errors of a finished context. The sentinels of pkg/claude/errors.go that
  share a name with a sentinel of the API client carry the suffix \<open>_pkg\<close>.
\<close>

record APIError =
  Type :: string
  Message_APIError :: string
  StatusCode :: int

datatype sentinel =
    ErrAPIKeyRequired
  | ErrInvalidRequest
  | ErrAPIError
  | ErrRateLimited
  | ErrContextCancelled
  | ErrMaxRetriesExceeded
  | ErrInvalidAPIKey
  | ErrRateLimited_pkg
  | ErrOverloaded
  | ErrInvalidRequest_pkg
  | ErrAuthenticationFailed
  | ErrPermissionDenied
  | ErrNotFound
  | ErrContextCancelled_pkg
  | ErrTimeout
  | ErrServerError

datatype go_error =
    EOF
  | ContextCanceled
  | ContextDeadlineExceeded
  | Sentinel sentinel
  | ErrorString string
  | Wrapped string go_error string
  | APIErr APIError

fun sentinel_message :: "sentinel \<Rightarrow> string" where
  "sentinel_message ErrAPIKeyRequired = ''API key is required''"
| "sentinel_message ErrInvalidRequest = ''invalid request''"
| "sentinel_message ErrAPIError = ''API error''"
| "sentinel_message ErrRateLimited = ''rate limited''"
| "sentinel_message ErrContextCancelled = ''context cancelled''"
| "sentinel_message ErrMaxRetriesExceeded = ''max retries exceeded''"
| "sentinel_message ErrInvalidAPIKey = ''invalid API key''"
| "sentinel_message ErrRateLimited_pkg = ''rate limited''"
| "sentinel_message ErrOverloaded = ''API overloaded''"
| "sentinel_message ErrInvalidRequest_pkg = ''invalid request''"
| "sentinel_message ErrAuthenticationFailed = ''authentication failed''"
| "sentinel_message ErrPermissionDenied = ''permission denied''"
| "sentinel_message ErrNotFound = ''resource not found''"
| "sentinel_message ErrContextCancelled_pkg = ''context cancelled''"
| "sentinel_message ErrTimeout = ''request timeout''"
| "sentinel_message ErrServerError = ''server error''"

text \<open>The method \<^verbatim>\<open>Error()\<close> of an error value.\<close>

fun Error_string :: "go_error \<Rightarrow> string" where
  "Error_string EOF = ''EOF''"
| "Error_string ContextCanceled = ''context canceled''"
| "Error_string ContextDeadlineExceeded = ''context deadline exceeded''"
| "Error_string (Sentinel s) = sentinel_message s"
| "Error_string (ErrorString m) = m"
| "Error_string (Wrapped before e after) = before @ Error_string e @ after"
| "Error_string (APIErr a) =
     ''Claude API error ('' @ Type a @ ''): '' @ Message_APIError a"

section \<open>pkg/claude: errors (src/pkg/claude/errors.go)\<close>

text \<open>\<^verbatim>\<open>func (e *APIError) Is(target error) bool\<close>, for a sentinel target.\<close>

definition APIError_Is :: "APIError \<Rightarrow> sentinel \<Rightarrow> bool" where
  "APIError_Is e target =
     (if Type e = ''authentication_error'' then target = ErrAuthenticationFailed
      else if Type e = ''permission_error'' then target = ErrPermissionDenied
      else if Type e = ''not_found_error'' then target = ErrNotFound
      else if Type e = ''rate_limit_error'' then target = ErrRateLimited_pkg
      else if Type e = ''api_error'' then target = ErrServerError
      else if Type e = ''overloaded_error'' then target = ErrOverloaded
      else if Type e = ''invalid_request_error'' then target = ErrInvalidRequest_pkg
      else False)"

text \<open>
  \<^verbatim>\<open>errors.Is(err, target)\<close> for a sentinel target and \<^verbatim>\<open>errors.As(err, &apiErr)\<close> for a
  target of type \<^verbatim>\<open>*APIError\<close>: both walk the chain of wrapped errors from the outside.
\<close>

fun errors_Is :: "go_error \<Rightarrow> sentinel \<Rightarrow> bool" where
  "errors_Is (Sentinel s) target = (s = target)"
| "errors_Is (Wrapped before e after) target = errors_Is e target"
| "errors_Is (APIErr a) target = APIError_Is a target"
| "errors_Is e target = False"

fun errors_As_APIError :: "go_error \<Rightarrow> APIError option" where
  "errors_As_APIError (APIErr a) = Some a"
| "errors_As_APIError (Wrapped before e after) = errors_As_APIError e"
| "errors_As_APIError e = None"

definition Retryable :: "APIError \<Rightarrow> bool" where
  "Retryable e =
     (if Type e = ''rate_limit_error'' \<or> Type e = ''overloaded_error'' \<or> Type e = ''api_error''
      then True else False)"

definition NewAPIError :: "string \<Rightarrow> string \<Rightarrow> int \<Rightarrow> APIError" where
  "NewAPIError errorType message statusCode =
     \<lparr>Type = errorType, Message_APIError = message, StatusCode = statusCode\<rparr>"

definition IsRetryable :: "go_error \<Rightarrow> bool" where
  "IsRetryable err =
     (case errors_As_APIError err of Some apiErr \<Rightarrow> Retryable apiErr | None \<Rightarrow> False)"

definition IsRateLimited :: "go_error \<Rightarrow> bool" where
  "IsRateLimited err = errors_Is err ErrRateLimited_pkg"

definition IsAuthError :: "go_error \<Rightarrow> bool" where
  "IsAuthError err = (errors_Is err ErrAuthenticationFailed \<or> errors_Is err ErrInvalidAPIKey)"

definition IsServerError :: "go_error \<Rightarrow> bool" where
  "IsServerError err = (errors_Is err ErrServerError \<or> errors_Is err ErrOverloaded)"

section \<open>pkg/mcp: the stdio transport and the server loop (src/unnamed/part_004)\<close>

text \<open>
  The transport reads from a buffered reader and writes to a writer. The reader is the
  list of complete lines (each ended by a newline) still to be read; after the last one
  \<^verbatim>\<open>ReadBytes\<close> reports \<^verbatim>\<open>io.EOF\<close>. The writer is the list of documents written, one per
  line. \<^verbatim>\<open>json.Unmarshal\<close> into a \<open>Request\<close> is library code: the decoder is a parameter.
\<close>

type_synonym unmarshal = "string \<Rightarrow> go_error + Request"

record StdioTransport =
  reader :: "string list"
  writer :: "(string \<times> json) list list"
  closed :: bool

definition Read :: "unmarshal \<Rightarrow> StdioTransport \<Rightarrow> (go_error + Request) \<times> StdioTransport" where
  "Read decode t =
     (if closed t then (Inl (ErrorString ''transport closed''), t)
      else case reader t of
        [] \<Rightarrow> (Inl EOF, t)
      | line # rest \<Rightarrow>
          (case decode line of
             Inl err \<Rightarrow> (Inl (Wrapped ''failed to parse request: '' err ''''), t\<lparr>reader := rest\<rparr>)
           | Inr req \<Rightarrow>
               if JSONRPC_Request req \<noteq> JSONRPCVersion
               then (Inl (ErrorString (''invalid JSON-RPC version: '' @ JSONRPC_Request req)),
                     t\<lparr>reader := rest\<rparr>)
               else (Inr req, t\<lparr>reader := rest\<rparr>)))"

definition Write :: "StdioTransport \<Rightarrow> Response \<Rightarrow> go_error option \<times> StdioTransport" where
  "Write t response =
     (if closed t then (Some (ErrorString ''transport closed''), t)
      else (None, t\<lparr>writer := writer t @ [marshal_Response response]\<rparr>))"

definition Close :: "StdioTransport \<Rightarrow> StdioTransport" where
  "Close t = t\<lparr>closed := True\<rparr>"

text \<open>
  One iteration of the loop of \<^verbatim>\<open>Server.Serve\<close>. The state of the context is given by the
  error \<^verbatim>\<open>ctx.Err()\<close> (\<open>None\<close> while the context is live) and the state of \<^verbatim>\<open>s.done\<close> by a
  flag (when both are ready Go picks either; the model looks at the context first). The
  handler goroutine the iteration starts for a request is recorded in \<open>spawned\<close>; what it
  does when it runs is \<open>handle\<close>. \<open>Read\<close> returns a nil request with every error it
  returns, so the test \<^verbatim>\<open>req == nil\<close> holds on that path.
\<close>

datatype serve_outcome = Return "go_error option" | Continue

record Server =
  transport :: StdioTransport
  spawned :: "Request list"

definition Serve_iteration ::
  "unmarshal \<Rightarrow> go_error option \<Rightarrow> bool \<Rightarrow> Server \<Rightarrow> serve_outcome \<times> Server" where
  "Serve_iteration decode ctx_err done s =
     (case ctx_err of
        Some e \<Rightarrow> (Return (Some e), s)
      | None \<Rightarrow>
          if done then (Return None, s)
          else (case Read decode (transport s) of
                  (Inl err, t) \<Rightarrow>
                    if err = EOF then (Return None, s\<lparr>transport := t\<rparr>)
                    else (Continue,
                          s\<lparr>transport :=
                              snd (Write t (NewErrorResponse None
                                              (Some (NewParseError (Error_string err)))))\<rparr>)
                | (Inr req, t) \<Rightarrow>
                    (Continue, s\<lparr>transport := t, spawned := spawned s @ [req]\<rparr>)))"

type_synonym MessageHandler = "Request \<Rightarrow> Response option \<times> go_error option"

definition handle :: "MessageHandler \<Rightarrow> Request \<Rightarrow> StdioTransport \<Rightarrow> StdioTransport" where
  "handle handler req t =
     (let resp = (case handler req of
                    (resp, None) \<Rightarrow> resp
                  | (resp, Some err) \<Rightarrow>
                      Some (NewErrorResponse (ID_Request req)
                              (Some (NewInternalError (Error_string err)))))
      in case resp of None \<Rightarrow> t | Some r \<Rightarrow> snd (Write t r))"

text \<open>The first \<open>n\<close> iterations of the loop, with a live context and no call of Stop.\<close>

fun Serve_n :: "nat \<Rightarrow> unmarshal \<Rightarrow> Server \<Rightarrow> serve_outcome \<times> Server" where
  "Serve_n 0 decode s = (Continue, s)"
| "Serve_n (Suc n) decode s =
     (case Serve_iteration decode None False s of
        (Continue, s') \<Rightarrow> Serve_n n decode s'
      | (Return r, s') \<Rightarrow> (Return r, s'))"

section \<open>Value objects: content types, roles and models (src/unnamed/part_002)\<close>

type_synonym ContentType = string
type_synonym Role = string
type_synonym Model = string

definition ContentTypeText :: ContentType where "ContentTypeText = ''text''"
definition ContentTypeImage :: ContentType where "ContentTypeImage = ''image''"
definition ContentTypeToolUse :: ContentType where "ContentTypeToolUse = ''tool_use''"
definition ContentTypeToolResult :: ContentType where "ContentTypeToolResult = ''tool_result''"

definition RoleUser :: Role where "RoleUser = ''user''"
definition RoleAssistant :: Role where "RoleAssistant = ''assistant''"
definition RoleSystem :: Role where "RoleSystem = ''system''"

definition ModelClaude4Opus :: Model where "ModelClaude4Opus = ''claude-opus-4-20250514''"
definition ModelClaude4Sonnet :: Model where "ModelClaude4Sonnet = ''claude-sonnet-4-20250514''"
definition ModelClaude37Sonnet :: Model where "ModelClaude37Sonnet = ''claude-3-7-sonnet-20250219''"
definition ModelClaude35Sonnet :: Model where "ModelClaude35Sonnet = ''claude-3-5-sonnet-20241022''"
definition ModelClaude35SonnetV2 :: Model where
  "ModelClaude35SonnetV2 = ''claude-3-5-sonnet-v2-20241022''"
definition ModelClaude35Haiku :: Model where "ModelClaude35Haiku = ''claude-3-5-haiku-20241022''"
definition ModelClaude3Opus :: Model where "ModelClaude3Opus = ''claude-3-opus-20240229''"
definition ModelClaude3Sonnet :: Model where "ModelClaude3Sonnet = ''claude-3-sonnet-20240229''"
definition ModelClaude3Haiku :: Model where "ModelClaude3Haiku = ''claude-3-haiku-20240307''"

lemmas Model_defs =
  ModelClaude4Opus_def ModelClaude4Sonnet_def ModelClaude37Sonnet_def ModelClaude35Sonnet_def
  ModelClaude35SonnetV2_def ModelClaude35Haiku_def ModelClaude3Opus_def ModelClaude3Sonnet_def
  ModelClaude3Haiku_def

definition IsValid_Model :: "Model \<Rightarrow> bool" where
  "IsValid_Model m =
     (if m = ModelClaude4Opus \<or> m = ModelClaude4Sonnet \<or> m = ModelClaude37Sonnet
         \<or> m = ModelClaude35Sonnet \<or> m = ModelClaude35SonnetV2 \<or> m = ModelClaude35Haiku
         \<or> m = ModelClaude3Opus \<or> m = ModelClaude3Sonnet \<or> m = ModelClaude3Haiku
      then True else False)"

text \<open>\<^verbatim>\<open>SystemPrompt.IsEmpty\<close>; a system prompt is modelled by the string it holds.\<close>

definition IsEmpty_SystemPrompt :: "string \<Rightarrow> bool" where
  "IsEmpty_SystemPrompt s = (s = '''')"

section \<open>The API client: requests and wire parameters (src/internal/presentation/resources/errors.go, package claude)\<close>

text \<open>
  The declarations of \<^verbatim>\<open>services.ClaudeRequest\<close>, \<^verbatim>\<open>services.ClaudeMessage\<close>,
  \<^verbatim>\<open>services.ClaudeTool\<close>, \<^verbatim>\<open>services.ClaudeResponse\<close>, \<^verbatim>\<open>services.ClaudeStreamEvent\<close>,
  \<^verbatim>\<open>entities.ContentBlock\<close> and \<^verbatim>\<open>config.ClaudeConfig\<close> are not among the sources; the records
  hold the fields the client reads and writes. The parameter and response types of the
  upstream SDK are modelled likewise; a field set with \<^verbatim>\<open>anthropic.F\<close> is \<open>Some\<close>, a field
  left unset is \<open>None\<close> and is absent from the wire request. Temperature and top-p are
  \<^verbatim>\<open>float64\<close> in the source and reals here: the client only compares them with 0 and 1,
  and every finite \<^verbatim>\<open>float64\<close> is a real (NaN, for which every comparison but \<open>\<noteq>\<close> is
  false, is not represented). A tool's input schema is left out of \<open>ClaudeTool\<close>: no
  property below reads it.
\<close>

record ClaudeConfig =
  MaxTokens_Config :: int
  MaxRetries :: int
  RetryDelay :: int

record EntityContentBlock =
  Type_E :: ContentType
  Text_E :: string
  ID_E :: string
  Name_E :: string
  Input_E :: json
  ToolUseID_E :: string
  Content_E :: string
  IsError_E :: bool

record ClaudeMessage =
  Role_M :: Role
  Content_M :: "EntityContentBlock list"

record ClaudeTool =
  Name_T :: string
  Description_T :: string

record ClaudeRequest =
  Model :: Model
  MaxTokens :: int
  Messages :: "ClaudeMessage list"
  SystemPrompt :: string
  Temperature :: real
  TopP :: real
  TopK :: int
  StopSequences :: "string list"
  Tools :: "ClaudeTool list"

datatype ContentBlockParamUnion =
    TextBlock string
  | ToolUseBlockParam string string json
  | ToolResultBlock string string bool

record MessageParam =
  Role_P :: string
  Content_P :: "ContentBlockParamUnion list"

record ToolParam =
  Name_P :: string
  Description_P :: string

record MessageNewParams =
  Model_Params :: string
  MaxTokens_Params :: int
  Messages_Params :: "MessageParam list"
  System_Params :: "string list option"
  Temperature_Params :: "real option"
  TopP_Params :: "real option"
  TopK_Params :: "int option"
  StopSequences_Params :: "string list option"
  Tools_Params :: "ToolParam list option"

record MessageCountTokensParams =
  Model_Count :: string
  Messages_Count :: "MessageParam list"
  System_Count :: "string list option"

text \<open>
  \<open>buildMessages\<close>: the inner loop appends one wire block for a text, a tool-use and a
  tool-result block and nothing for any other content type.
\<close>

definition buildBlock :: "EntityContentBlock \<Rightarrow> ContentBlockParamUnion list" where
  "buildBlock block =
     (if Type_E block = ContentTypeText then [TextBlock (Text_E block)]
      else if Type_E block = ContentTypeToolUse
      then [ToolUseBlockParam (ID_E block) (Name_E block) (Input_E block)]
      else if Type_E block = ContentTypeToolResult
      then [ToolResultBlock (ToolUseID_E block) (Content_E block) (IsError_E block)]
      else [])"

definition buildMessages :: "ClaudeMessage list \<Rightarrow> MessageParam list" where
  "buildMessages messages =
     map (\<lambda>msg. \<lparr>Role_P = Role_M msg, Content_P = concat (map buildBlock (Content_M msg))\<rparr>)
         messages"

definition buildTools :: "ClaudeTool list \<Rightarrow> ToolParam list" where
  "buildTools tools =
     map (\<lambda>tool. \<lparr>Name_P = Name_T tool, Description_P = Description_T tool\<rparr>) tools"

definition buildMessageParams :: "ClaudeRequest \<Rightarrow> MessageNewParams" where
  "buildMessageParams request =
     \<lparr>Model_Params = Model request,
      MaxTokens_Params = MaxTokens request,
      Messages_Params = buildMessages (Messages request),
      System_Params =
        (if \<not> IsEmpty_SystemPrompt (SystemPrompt request) then Some [SystemPrompt request]
         else None),
      Temperature_Params =
        (if Temperature request > 0 \<and> Temperature request \<noteq> 1 then Some (Temperature request)
         else None),
      TopP_Params =
        (if TopP request > 0 \<and> TopP request < 1 then Some (TopP request) else None),
      TopK_Params = (if TopK request > 0 then Some (TopK request) else None),
      StopSequences_Params =
        (if length (StopSequences request) > 0 then Some (StopSequences request) else None),
      Tools_Params =
        (if length (Tools request) > 0 then Some (buildTools (Tools request)) else None)\<rparr>"

text \<open>
  \<open>ValidateRequest\<close> takes a pointer, which may be nil, and may write through it. The model
  takes the request the pointer refers to (\<open>None\<close> for nil) and returns the error together
  with the request as it stands after the call.
\<close>

definition ValidateRequest ::
  "ClaudeConfig \<Rightarrow> ClaudeRequest option \<Rightarrow> go_error option \<times> ClaudeRequest option" where
  "ValidateRequest c request =
     (case request of
        None \<Rightarrow> (Some (Sentinel ErrInvalidRequest), None)
      | Some r \<Rightarrow>
          if \<not> IsValid_Model (Model r)
          then (Some (Wrapped '''' (Sentinel ErrInvalidRequest) '': invalid model''), Some r)
          else if length (Messages r) = 0
          then (Some (Wrapped '''' (Sentinel ErrInvalidRequest) '': messages required''), Some r)
          else if MaxTokens r \<le> 0
          then (None, Some (r\<lparr>MaxTokens := MaxTokens_Config c\<rparr>))
          else (None, Some r))"

section \<open>The API client: upstream calls\<close>

text \<open>
  A call of the client ends by returning a value, by returning an error, or in a panic
  (a nil pointer dereference). What the client does to the outside is recorded as a list
  of effects, in order: a call of the upstream SDK with its parameters and the instant it
  is made, or a \<^verbatim>\<open>time.Sleep\<close> with the time it takes. Time is in nanoseconds from the start
  of the call, as \<^verbatim>\<open>time.Duration\<close> counts it; an upstream call takes no time in the model.
  The request's context is given by the instant at which it is cancelled, if ever.
\<close>

datatype 'a result = Returned 'a | Failed go_error | Panicked

datatype upstream_call =
    MessagesNew MessageNewParams
  | MessagesNewStreaming MessageNewParams
  | MessagesCountTokens MessageCountTokensParams

datatype effect = Call upstream_call int | Sleep int

record Context =
  cancel_at :: "int option"

definition ctx_done :: "Context \<Rightarrow> int \<Rightarrow> bool" where
  "ctx_done ctx now = (case cancel_at ctx of None \<Rightarrow> False | Some t \<Rightarrow> t \<le> now)"

record ClaudeUsage =
  InputTokens :: int
  OutputTokens :: int

record ClaudeResponse =
  ID_R :: string
  Type_R :: string
  Role_R :: Role
  Content_R :: "EntityContentBlock list"
  Model_R :: string
  StopReason_R :: string
  Usage_R :: "ClaudeUsage option"

record SDKContentBlock =
  Type_B :: string
  Text_B :: string
  ID_B :: string
  Name_B :: string
  Input_B :: "json option"

record SDKMessage =
  ID_S :: string
  Type_S :: string
  Content_S :: "SDKContentBlock list"
  Model_S :: string
  StopReason_S :: string
  Usage_InputTokens :: int
  Usage_OutputTokens :: int

definition empty_block :: EntityContentBlock where
  "empty_block =
     \<lparr>Type_E = '''', Text_E = '''', ID_E = '''', Name_E = '''', Input_E = JNull,
      ToolUseID_E = '''', Content_E = '''', IsError_E = False\<rparr>"

definition convertBlock :: "SDKContentBlock \<Rightarrow> EntityContentBlock list" where
  "convertBlock block =
     (if Type_B block = ''text''
      then [empty_block\<lparr>Type_E := ContentTypeText, Text_E := Text_B block\<rparr>]
      else if Type_B block = ''tool_use''
      then [empty_block\<lparr>Type_E := ContentTypeToolUse, ID_E := ID_B block, Name_E := Name_B block,
                        Input_E := (case Input_B block of
                                      Some (JObj m) \<Rightarrow> JObj m
                                    | _ \<Rightarrow> JObj [])\<rparr>]
      else [])"

definition convertResponse :: "SDKMessage \<Rightarrow> ClaudeResponse" where
  "convertResponse msg =
     \<lparr>ID_R = ID_S msg, Type_R = Type_S msg, Role_R = RoleAssistant,
      Content_R = concat (map convertBlock (Content_S msg)),
      Model_R = Model_S msg, StopReason_R = StopReason_S msg,
      Usage_R = Some \<lparr>InputTokens = Usage_InputTokens msg,
                      OutputTokens = Usage_OutputTokens msg\<rparr>\<rparr>"

subsection \<open>CreateMessage and its retry loop\<close>

text \<open>The retry predicate of the client:\<close>

text \<open>
  \<^verbatim>\<open>
  func (c *Client) isRetryableError(err error) bool {
      // Check for rate limiting or temporary errors
      // This would need to inspect the actual error type from the SDK
      return false
  }
  \<close>
\<close>

definition isRetryableError :: "go_error \<Rightarrow> bool" where
  "isRetryableError err = False"

text \<open>
  \<^verbatim>\<open>time.Sleep(c.config.RetryDelay * time.Duration(attempt))\<close>: the product is taken in
  64-bit two's complement, and \<^verbatim>\<open>time.Sleep\<close> returns at once for a duration that is zero
  or negative. \<^verbatim>\<open>time.Sleep\<close> has no access to the context.
\<close>

definition wrap64 :: "int \<Rightarrow> int" where
  "wrap64 x = (x + 2 ^ 63) mod 2 ^ 64 - 2 ^ 63"

definition sleep_time :: "int \<Rightarrow> int \<Rightarrow> int" where
  "sleep_time delay attempt = max 0 (wrap64 (delay * attempt))"

text \<open>
  The loop \<^verbatim>\<open>for attempt := 0; attempt <= c.config.MaxRetries; attempt++\<close>, from the value
  \<open>attempt\<close> of its counter, at the instant \<open>now\<close>, with \<open>err\<close> the error of the previous
  attempt. The upstream is a function of the attempt and of whether the context is done
  when the call is made. The retry predicate is a parameter of the loop; \<open>CreateMessage\<close>
  passes the client's \<open>isRetryableError\<close>. After the loop, a non-nil \<open>err\<close> gives
  \<open>ErrMaxRetriesExceeded\<close>; otherwise \<open>convertResponse\<close> runs on the response, which is
  still the nil pointer when the body never ran (a negative \<open>MaxRetries\<close>).
\<close>

function retry_loop ::
  "(go_error \<Rightarrow> bool) \<Rightarrow> ClaudeConfig \<Rightarrow> Context \<Rightarrow> (int \<Rightarrow> bool \<Rightarrow> go_error + SDKMessage)
   \<Rightarrow> MessageNewParams \<Rightarrow> int \<Rightarrow> int \<Rightarrow> go_error option
   \<Rightarrow> ClaudeResponse result \<times> effect list" where
  "retry_loop retryable c ctx upstream params attempt now err =
     (if attempt \<le> MaxRetries c then
        (let slept = (if attempt > 0 then [Sleep (sleep_time (RetryDelay c) attempt)] else []);
             now' = (if attempt > 0 then now + sleep_time (RetryDelay c) attempt else now)
         in case upstream attempt (ctx_done ctx now') of
              Inr response \<Rightarrow>
                (Returned (convertResponse response), slept @ [Call (MessagesNew params) now'])
            | Inl e \<Rightarrow>
                if \<not> retryable e
                then (Failed (Wrapped '''' (Sentinel ErrAPIError) ('': '' @ Error_string e)),
                      slept @ [Call (MessagesNew params) now'])
                else (case retry_loop retryable c ctx upstream params (attempt + 1) now' (Some e)
                      of (r, effects) \<Rightarrow>
                        (r, slept @ [Call (MessagesNew params) now'] @ effects)))
      else (case err of
              Some e \<Rightarrow>
                (Failed (Wrapped '''' (Sentinel ErrMaxRetriesExceeded) ('': '' @ Error_string e)),
                 [])
            | None \<Rightarrow> (Panicked, [])))"
  by pat_completeness auto
termination
  by (relation "measure (\<lambda>(retryable, c, ctx, upstream, params, attempt, now, err).
                   nat (MaxRetries c + 1 - attempt))") auto

declare retry_loop.simps [simp del]

definition CreateMessage ::
  "ClaudeConfig \<Rightarrow> Context \<Rightarrow> (int \<Rightarrow> bool \<Rightarrow> go_error + SDKMessage) \<Rightarrow> ClaudeRequest option
   \<Rightarrow> ClaudeResponse result \<times> effect list \<times> ClaudeRequest option" where
  "CreateMessage c ctx upstream request =
     (case ValidateRequest c request of
        (Some err, request') \<Rightarrow> (Failed err, [], request')
      | (None, None) \<Rightarrow> (Panicked, [], None)
      | (None, Some r) \<Rightarrow>
          (case retry_loop isRetryableError c ctx upstream (buildMessageParams r) 0 0 None of
             (res, effects) \<Rightarrow> (res, effects, Some r)))"

subsection \<open>CountTokens\<close>

definition CountTokens ::
  "ClaudeConfig \<Rightarrow> (MessageCountTokensParams \<Rightarrow> go_error + int) \<Rightarrow> ClaudeRequest option
   \<Rightarrow> int result \<times> effect list \<times> ClaudeRequest option" where
  "CountTokens c upstream request =
     (case ValidateRequest c request of
        (Some err, request') \<Rightarrow> (Failed err, [], request')
      | (None, None) \<Rightarrow> (Panicked, [], None)
      | (None, Some r) \<Rightarrow>
          (let params =
                 \<lparr>Model_Count = Model r,
                  Messages_Count = buildMessages (Messages r),
                  System_Count =
                    (if \<not> IsEmpty_SystemPrompt (SystemPrompt r) then Some [SystemPrompt r]
                     else None)\<rparr>
           in case upstream params of
                Inl err \<Rightarrow>
                  (Failed (Wrapped '''' (Sentinel ErrAPIError) ('': '' @ Error_string err)),
                   [Call (MessagesCountTokens params) 0], Some r)
              | Inr inputTokens \<Rightarrow>
                  (Returned inputTokens, [Call (MessagesCountTokens params) 0], Some r)))"

subsection \<open>CreateMessageStream\<close>

record ClaudeDelta =
  Type_D :: string
  Text_D :: string
  StopReason_D :: string

record ClaudeStreamEvent =
  Type_Ev :: string
  Index_Ev :: int
  Message_Ev :: "ClaudeResponse option"
  ContentBlock_Ev :: "EntityContentBlock option"
  Delta_Ev :: "ClaudeDelta option"
  Usage_Ev :: "ClaudeUsage option"
  Error_Ev :: "go_error option"

text \<open>
  The SDK's stream event is a flattened union: the fields of the message, the content
  block, the delta and the usage that the client reads are fields of one record.
\<close>

record MessageStreamEvent =
  Type_SE :: string
  Index_SE :: int
  Message_ID :: string
  Message_Model :: string
  ContentBlock_Type :: string
  ContentBlock_Text :: string
  ContentBlock_ID :: string
  ContentBlock_Name :: string
  Delta_Type :: string
  Delta_Text :: string
  Delta_StopReason :: string
  Usage_OutputTokens_SE :: int

definition empty_event :: ClaudeStreamEvent where
  "empty_event =
     \<lparr>Type_Ev = '''', Index_Ev = 0, Message_Ev = None, ContentBlock_Ev = None,
      Delta_Ev = None, Usage_Ev = None, Error_Ev = None\<rparr>"

definition empty_response :: ClaudeResponse where
  "empty_response =
     \<lparr>ID_R = '''', Type_R = '''', Role_R = '''', Content_R = [], Model_R = '''',
      StopReason_R = '''', Usage_R = None\<rparr>"

definition error_event :: "go_error \<Rightarrow> ClaudeStreamEvent" where
  "error_event err = empty_event\<lparr>Error_Ev := Some err\<rparr>"

definition convertStreamEvent :: "MessageStreamEvent \<Rightarrow> ClaudeStreamEvent option" where
  "convertStreamEvent event =
     (if Type_SE event = ''message_start'' then
        (if Message_ID event \<noteq> ''''
         then Some (empty_event
                \<lparr>Type_Ev := Type_SE event,
                 Message_Ev := Some (empty_response
                   \<lparr>ID_R := Message_ID event, Model_R := Message_Model event,
                    Role_R := RoleAssistant\<rparr>)\<rparr>)
         else None)
      else if Type_SE event = ''content_block_start'' then
        (if ContentBlock_Type event = ''text''
         then Some (empty_event
                \<lparr>Type_Ev := Type_SE event, Index_Ev := Index_SE event,
                 ContentBlock_Ev := Some (empty_block
                   \<lparr>Type_E := ContentTypeText, Text_E := ContentBlock_Text event\<rparr>)\<rparr>)
         else if ContentBlock_Type event = ''tool_use''
         then Some (empty_event
                \<lparr>Type_Ev := Type_SE event, Index_Ev := Index_SE event,
                 ContentBlock_Ev := Some (empty_block
                   \<lparr>Type_E := ContentTypeToolUse, ID_E := ContentBlock_ID event,
                    Name_E := ContentBlock_Name event\<rparr>)\<rparr>)
         else None)
      else if Type_SE event = ''content_block_delta'' then
        Some (empty_event
          \<lparr>Type_Ev := Type_SE event, Index_Ev := Index_SE event,
           Delta_Ev := Some \<lparr>Type_D = Delta_Type event, Text_D = Delta_Text event,
                             StopReason_D = ''''\<rparr>\<rparr>)
      else if Type_SE event = ''message_delta'' then
        Some (empty_event
          \<lparr>Type_Ev := Type_SE event,
           Delta_Ev := Some \<lparr>Type_D = '''', Text_D = '''',
                             StopReason_D = Delta_StopReason event\<rparr>,
           Usage_Ev := Some \<lparr>InputTokens = 0, OutputTokens = Usage_OutputTokens_SE event\<rparr>\<rparr>)
      else if Type_SE event = ''message_stop'' then
        Some (empty_event\<lparr>Type_Ev := Type_SE event\<rparr>)
      else None)"

text \<open>
  A Go channel with a buffer: its capacity, the elements waiting in it (oldest first) and
  whether it has been closed. The goroutine that \<open>CreateMessageStream\<close> starts is given by
  the channel operations it performs, in order.
\<close>

record 'e chan =
  capacity :: nat
  buffer :: "'e list"
  chan_closed :: bool

definition make_chan :: "nat \<Rightarrow> 'e chan" where
  "make_chan n = \<lparr>capacity = n, buffer = [], chan_closed = False\<rparr>"

datatype 'e chan_op = Send 'e | CloseChan

text \<open>
  The upstream stream is the list of events for which \<^verbatim>\<open>stream.Next()\<close> answers true,
  followed by the value of \<^verbatim>\<open>stream.Err()\<close> once it answers false. Each forwarded event goes
  through a \<^verbatim>\<open>select\<close> between the send and \<^verbatim>\<open>ctx.Done()\<close>; which case runs is up to the
  context and the scheduler and is an input here: \<open>sel k\<close>, for the select of the event
  that follows \<open>k\<close> forwarded ones, is \<open>None\<close> when the send runs and \<open>Some\<close> of \<^verbatim>\<open>ctx.Err()\<close>
  when the other case runs (the goroutine then sends one event with that error and
  returns). The deferred \<^verbatim>\<open>close(eventChan)\<close> runs last on every path.
\<close>

record UpstreamStream =
  events :: "MessageStreamEvent list"
  stream_Err :: "go_error option"

fun producer ::
  "(nat \<Rightarrow> go_error option) \<Rightarrow> nat \<Rightarrow> MessageStreamEvent list \<Rightarrow> go_error option
   \<Rightarrow> ClaudeStreamEvent chan_op list" where
  "producer sel k [] err =
     (case err of None \<Rightarrow> [] | Some e \<Rightarrow> [Send (error_event e)]) @ [CloseChan]"
| "producer sel k (event # rest) err =
     (case convertStreamEvent event of
        None \<Rightarrow> producer sel k rest err
      | Some streamEvent \<Rightarrow>
          (case sel k of
             None \<Rightarrow> Send streamEvent # producer sel (Suc k) rest err
           | Some ctxErr \<Rightarrow> [Send (error_event ctxErr), CloseChan]))"

record StreamHandle =
  eventChan :: "ClaudeStreamEvent chan"
  goroutine :: "ClaudeStreamEvent chan_op list"

definition CreateMessageStream ::
  "ClaudeConfig \<Rightarrow> (nat \<Rightarrow> go_error option) \<Rightarrow> (MessageNewParams \<Rightarrow> UpstreamStream)
   \<Rightarrow> ClaudeRequest option \<Rightarrow> StreamHandle result \<times> effect list \<times> ClaudeRequest option" where
  "CreateMessageStream c sel upstream request =
     (case ValidateRequest c request of
        (Some err, request') \<Rightarrow> (Failed err, [], request')
      | (None, None) \<Rightarrow> (Panicked, [], None)
      | (None, Some r) \<Rightarrow>
          (let params = buildMessageParams r;
               stream = upstream params
           in (Returned \<lparr>eventChan = make_chan 100,
                         goroutine = producer sel 0 (events stream) (stream_Err stream)\<rparr>,
               [Call (MessagesNewStreaming params) 0], Some r)))"

text \<open>
  The producer goroutine and the consumer of the channel run concurrently. A state of the
  two holds the operations the producer has still to perform, the channel, and the events
  the consumer has received so far. A step is a send into a channel that has room, the
  close, or a receive of the oldest buffered event; a send into a full channel has to
  wait for a receive.
\<close>

record 'e system =
  pending :: "'e chan_op list"
  chan :: "'e chan"
  received :: "'e list"

inductive step :: "'e system \<Rightarrow> 'e system \<Rightarrow> bool" where
  send: "pending s = Send e # rest \<Longrightarrow> length (buffer (chan s)) < capacity (chan s)
         \<Longrightarrow> \<not> chan_closed (chan s)
         \<Longrightarrow> step s (s\<lparr>pending := rest, chan := (chan s)\<lparr>buffer := buffer (chan s) @ [e]\<rparr>\<rparr>)"
| close: "pending s = CloseChan # rest \<Longrightarrow> \<not> chan_closed (chan s)
         \<Longrightarrow> step s (s\<lparr>pending := rest, chan := (chan s)\<lparr>chan_closed := True\<rparr>\<rparr>)"
| recv: "buffer (chan s) = e # b
         \<Longrightarrow> step s (s\<lparr>chan := (chan s)\<lparr>buffer := b\<rparr>, received := received s @ [e]\<rparr>)"

definition start :: "StreamHandle \<Rightarrow> ClaudeStreamEvent system" where
  "start h = \<lparr>pending = goroutine h, chan = eventChan h, received = []\<rparr>"

definition finished :: "'e system \<Rightarrow> bool" where
  "finished s = (pending s = [] \<and> buffer (chan s) = [])"

text \<open>The events the producer forwards from a list of upstream events.\<close>

definition forwarded :: "MessageStreamEvent list \<Rightarrow> ClaudeStreamEvent list" where
  "forwarded evs = concat (map (\<lambda>event. case convertStreamEvent event of
                                           None \<Rightarrow> [] | Some se \<Rightarrow> [se]) evs)"

section \<open>pkg/claude: messages and content blocks (src/unnamed/part_005)\<close>

text \<open>
  The utility package has message types of its own. Its constants that share a name with
  a constant of the value-object package carry the suffix \<open>_pkg\<close>.
\<close>

definition RoleUser_pkg :: string where "RoleUser_pkg = ''user''"
definition RoleAssistant_pkg :: string where "RoleAssistant_pkg = ''assistant''"
definition ContentTypeText_pkg :: string where "ContentTypeText_pkg = ''text''"
definition ContentTypeImage_pkg :: string where "ContentTypeImage_pkg = ''image''"
definition StopReasonEndTurn :: string where "StopReasonEndTurn = ''end_turn''"
definition StopReasonMaxTokens :: string where "StopReasonMaxTokens = ''max_tokens''"
definition StopReasonToolUse :: string where "StopReasonToolUse = ''tool_use''"
definition StopReasonStopSequence :: string where "StopReasonStopSequence = ''stop_sequence''"

record ImageSource =
  Type_IS :: string
  MediaType :: string
  Data_IS :: string

record ContentBlock =
  Type_CB :: string
  Text_CB :: string
  Source_CB :: "ImageSource option"
  ID_CB :: string
  Name_CB :: string
  Input_CB :: "json option"
  ToolUseID_CB :: string
  Content_CB :: string

record Message =
  Role_Msg :: string
  Content_Msg :: "ContentBlock list"

record Usage =
  InputTokens_U :: int
  OutputTokens_U :: int

record CreateMessageResponse =
  ID_CMR :: string
  Type_CMR :: string
  Role_CMR :: string
  Content_CMR :: "ContentBlock list"
  Model_CMR :: string
  StopReason_CMR :: string
  StopSequence_CMR :: string
  Usage_CMR :: Usage

text \<open>The zero value of \<open>ContentBlock\<close>, from which a composite literal starts.\<close>

definition zero_ContentBlock :: ContentBlock where
  "zero_ContentBlock =
     \<lparr>Type_CB = '''', Text_CB = '''', Source_CB = None, ID_CB = '''', Name_CB = '''',
      Input_CB = None, ToolUseID_CB = '''', Content_CB = ''''\<rparr>"

definition NewTextMessage :: "string \<Rightarrow> string \<Rightarrow> Message" where
  "NewTextMessage role text =
     \<lparr>Role_Msg = role,
      Content_Msg = [zero_ContentBlock\<lparr>Type_CB := ContentTypeText_pkg, Text_CB := text\<rparr>]\<rparr>"

definition NewUserMessage :: "string \<Rightarrow> Message" where
  "NewUserMessage text = NewTextMessage RoleUser_pkg text"

definition NewAssistantMessage :: "string \<Rightarrow> Message" where
  "NewAssistantMessage text = NewTextMessage RoleAssistant_pkg text"

definition NewToolResultMessage :: "string \<Rightarrow> string \<Rightarrow> Message" where
  "NewToolResultMessage toolUseID content =
     \<lparr>Role_Msg = RoleUser_pkg,
      Content_Msg = [zero_ContentBlock\<lparr>Type_CB := ''tool_result'', ToolUseID_CB := toolUseID,
                                       Content_CB := content\<rparr>]\<rparr>"

text \<open>
  The three functions below loop over the content with \<^verbatim>\<open>range\<close>; the loop is a fold from
  the left over the list.
\<close>

definition ExtractText :: "ContentBlock list \<Rightarrow> string" where
  "ExtractText content =
     foldl (\<lambda>result block.
              if Type_CB block = ContentTypeText_pkg then result @ Text_CB block else result)
           '''' content"

fun HasToolUse :: "ContentBlock list \<Rightarrow> bool" where
  "HasToolUse [] = False"
| "HasToolUse (block # rest) = (if Type_CB block = ''tool_use'' then True else HasToolUse rest)"

definition GetToolUseBlocks :: "ContentBlock list \<Rightarrow> ContentBlock list" where
  "GetToolUseBlocks content =
     foldl (\<lambda>toolUses block.
              if Type_CB block = ''tool_use'' then toolUses @ [block] else toolUses)
           [] content"

section \<open>The tool loop of the LLM proxy\<close>

text \<open>
  Modelled from the spec: the tool-loop turn of the LLM proxy (component C7, steps 1 and 2
  of the tool loop), which is not among the sources. A tool result is the spec's
  \<open>ToolResult(toolUseId, content, isError)\<close>. The tool registry of the session maps a
  tool name to its handler, and a handler maps the input to the content or fails with a
  message. For each ToolUse block of the response, in order, step 1 yields one result: for
  a missing tool the content "tool not found" with the error flag, for a failing handler
  its message with the error flag, otherwise the handler's content. Step 2 appends one
  user-role message that holds the results' blocks in order. The ToolUse blocks are taken
  from the response by the repository's \<open>GetToolUseBlocks\<close>, and the block of a result is
  the one the repository's \<open>NewToolResultMessage\<close> builds. A turn takes place when the stop
  reason is \<^verbatim>\<open>tool_use\<close> and the response holds at least one ToolUse block.
\<close>

record ToolResult =
  toolUseId :: string
  content_TR :: string
  isError :: bool

type_synonym tool_registry = "string \<Rightarrow> (json option \<Rightarrow> string + string) option"

definition invoke_tool :: "tool_registry \<Rightarrow> ContentBlock \<Rightarrow> ToolResult" where
  "invoke_tool registry block =
     (case registry (Name_CB block) of
        None \<Rightarrow> \<lparr>toolUseId = ID_CB block, content_TR = ''tool not found'', isError = True\<rparr>
      | Some handler \<Rightarrow>
          (case handler (Input_CB block) of
             Inl errorMessage \<Rightarrow>
               \<lparr>toolUseId = ID_CB block, content_TR = errorMessage, isError = True\<rparr>
           | Inr c \<Rightarrow> \<lparr>toolUseId = ID_CB block, content_TR = c, isError = False\<rparr>))"

definition tool_result_message :: "ToolResult list \<Rightarrow> Message" where
  "tool_result_message results =
     \<lparr>Role_Msg = RoleUser_pkg,
      Content_Msg =
        concat (map (\<lambda>r. Content_Msg (NewToolResultMessage (toolUseId r) (content_TR r)))
                    results)\<rparr>"

definition tool_loop_turn ::
  "tool_registry \<Rightarrow> Message list \<Rightarrow> CreateMessageResponse
   \<Rightarrow> (Message list \<times> ToolResult list) option" where
  "tool_loop_turn registry conversation response =
     (if StopReason_CMR response = StopReasonToolUse
         \<and> GetToolUseBlocks (Content_CMR response) \<noteq> []
      then Some (conversation
                 @ [tool_result_message
                      (map (invoke_tool registry) (GetToolUseBlocks (Content_CMR response)))],
                 map (invoke_tool registry) (GetToolUseBlocks (Content_CMR response)))
      else None)"

section \<open>Notions used in the proofs about the channel\<close>

text \<open>
  The events a list of channel operations sends; the events a state of the producer and
  the consumer accounts for (received, buffered, still to be sent); the shape of the
  states that the goroutine of \<open>CreateMessageStream\<close> goes through (sends followed by one
  close, the channel closed exactly when nothing is pending); and a bound on the number of
  steps left.
\<close>

fun sends :: "'e chan_op list \<Rightarrow> 'e list" where
  "sends [] = []"
| "sends (Send e # ops) = e # sends ops"
| "sends (CloseChan # ops) = sends ops"

definition stream_of :: "'e system \<Rightarrow> 'e list" where
  "stream_of s = received s @ buffer (chan s) @ sends (pending s)"

definition well_formed :: "'e system \<Rightarrow> bool" where
  "well_formed s =
     (0 < capacity (chan s) \<and> length (buffer (chan s)) \<le> capacity (chan s)
      \<and> (if pending s = [] then chan_closed (chan s)
          else \<not> chan_closed (chan s) \<and> (\<exists>es. pending s = map Send es @ [CloseChan])))"

definition weight :: "'e system \<Rightarrow> nat" where
  "weight s = 2 * length (pending s) + length (buffer (chan s))"

section \<open>Tool results follow the tool uses (claim C1)\<close>

lemma GetToolUseBlocks_foldl:
  "foldl (\<lambda>toolUses block.
              if Type_CB block = ''tool_use'' then toolUses @ [block] else toolUses)
           acc blocks
   = acc @ filter (\<lambda>block. Type_CB block = ''tool_use'') blocks"
  by (induction blocks arbitrary: acc) auto

lemma GetToolUseBlocks_filter:
  "GetToolUseBlocks blocks = filter (\<lambda>block. Type_CB block = ''tool_use'') blocks"
  by (simp add: GetToolUseBlocks_def GetToolUseBlocks_foldl)

lemma NewToolResultMessage_single_block:
  "Role_Msg (NewToolResultMessage toolUseID c) = ''user''
   \<and> length (Content_Msg (NewToolResultMessage toolUseID c)) = 1
   \<and> map Type_CB (Content_Msg (NewToolResultMessage toolUseID c)) = [''tool_result'']
   \<and> map ToolUseID_CB (Content_Msg (NewToolResultMessage toolUseID c)) = [toolUseID]"
  by (simp add: NewToolResultMessage_def RoleUser_pkg_def)

lemma tool_result_message_blocks:
  "Content_Msg (tool_result_message results)
   = map (\<lambda>r. zero_ContentBlock\<lparr>Type_CB := ''tool_result'', ToolUseID_CB := toolUseId r,
                                  Content_CB := content_TR r\<rparr>) results"
  by (induction results) (simp_all add: tool_result_message_def NewToolResultMessage_def)

lemma tool_result_message_single:
  "tool_result_message [r] = NewToolResultMessage (toolUseId r) (content_TR r)"
  by (simp add: tool_result_message_def NewToolResultMessage_def)

lemma toolUseId_invoke_tool: "toolUseId (invoke_tool registry block) = ID_CB block"
  by (simp add: invoke_tool_def split: option.splits sum.splits)

text \<open>
  C1: for a response whose stop reason is \<^verbatim>\<open>tool_use\<close> and whose content holds k \<ge> 1 ToolUse
  blocks (the blocks \<open>GetToolUseBlocks\<close> returns: those of type \<^verbatim>\<open>tool_use\<close>, in the order of
  the content), the tool-loop turn appends exactly one message to the conversation; it
  has the user role and exactly k blocks, all of type \<^verbatim>\<open>tool_result\<close>, and the toolUseId of
  the i-th block is the id of the i-th ToolUse block, unchanged.
\<close>

theorem C1_tool_results_follow_tool_uses:
  assumes "StopReason_CMR response = ''tool_use''"
    and "GetToolUseBlocks (Content_CMR response) \<noteq> []"
  shows "\<exists>msg results.
           tool_loop_turn registry conversation response = Some (conversation @ [msg], results)
           \<and> Role_Msg msg = ''user''
           \<and> length (Content_Msg msg) = length (GetToolUseBlocks (Content_CMR response))
           \<and> map Type_CB (Content_Msg msg)
               = replicate (length (GetToolUseBlocks (Content_CMR response))) ''tool_result''
           \<and> map ToolUseID_CB (Content_Msg msg)
               = map ID_CB (GetToolUseBlocks (Content_CMR response))
           \<and> (\<forall>i < length (GetToolUseBlocks (Content_CMR response)).
                 ToolUseID_CB (Content_Msg msg ! i)
                 = ID_CB (GetToolUseBlocks (Content_CMR response) ! i))
           \<and> map toolUseId results = map ID_CB (GetToolUseBlocks (Content_CMR response))
           \<and> GetToolUseBlocks (Content_CMR response)
               = filter (\<lambda>block. Type_CB block = ''tool_use'') (Content_CMR response)"
proof -
  define uses where "uses = GetToolUseBlocks (Content_CMR response)"
  define results where "results = map (invoke_tool registry) uses"
  define msg where "msg = tool_result_message results"
  have turn: "tool_loop_turn registry conversation response = Some (conversation @ [msg], results)"
    using assms by (simp add: tool_loop_turn_def StopReasonToolUse_def msg_def results_def uses_def)
  have role: "Role_Msg msg = ''user''"
    by (simp add: msg_def tool_result_message_def RoleUser_pkg_def)
  have blocks: "Content_Msg msg
      = map (\<lambda>r. zero_ContentBlock\<lparr>Type_CB := ''tool_result'', ToolUseID_CB := toolUseId r,
                                    Content_CB := content_TR r\<rparr>) results"
    by (simp add: msg_def tool_result_message_blocks)
  have len: "length (Content_Msg msg) = length uses"
    by (simp add: blocks results_def)
  have types: "map Type_CB (Content_Msg msg) = replicate (length uses) ''tool_result''"
    by (simp add: blocks results_def o_def map_replicate_const)
  have ids: "map ToolUseID_CB (Content_Msg msg) = map ID_CB uses"
    by (simp add: blocks results_def o_def toolUseId_invoke_tool)
  have nth: "ToolUseID_CB (Content_Msg msg ! i) = ID_CB (uses ! i)" if "i < length uses" for i
  proof -
    have "map ToolUseID_CB (Content_Msg msg) ! i = map ID_CB uses ! i" by (simp only: ids)
    with that len show ?thesis by simp
  qed
  have rids: "map toolUseId results = map ID_CB uses"
    by (simp add: results_def o_def toolUseId_invoke_tool)
  show ?thesis
    using turn role len types ids nth rids GetToolUseBlocks_filter [of "Content_CMR response"]
    unfolding uses_def by blast
qed

text \<open>
  The theorem at the response of scenario S5 extended by a second tool use: a text block,
  \<open>ToolUse(t1, get_weather)\<close> and \<open>ToolUse(t2, missing_tool)\<close>, with a registry that knows
  \<open>get_weather\<close> only.
\<close>

theorem C1_tool_results_witness:
  "tool_loop_turn
     (\<lambda>name. if name = ''get_weather'' then Some (\<lambda>input. Inr ''65F sunny'') else None)
     [NewUserMessage ''weather?'']
     \<lparr>ID_CMR = ''msg_1'', Type_CMR = ''message'', Role_CMR = ''assistant'',
      Content_CMR =
        [zero_ContentBlock\<lparr>Type_CB := ''text'', Text_CB := ''Let me check.''\<rparr>,
         zero_ContentBlock\<lparr>Type_CB := ''tool_use'', ID_CB := ''t1'', Name_CB := ''get_weather'',
                           Input_CB := Some (JObj [(''city'', JStr ''SF'')])\<rparr>,
         zero_ContentBlock\<lparr>Type_CB := ''tool_use'', ID_CB := ''t2'', Name_CB := ''missing_tool''\<rparr>],
      Model_CMR = ''claude-sonnet-4-20250514'', StopReason_CMR = ''tool_use'',
      StopSequence_CMR = '''', Usage_CMR = \<lparr>InputTokens_U = 10, OutputTokens_U = 20\<rparr>\<rparr>
   = Some ([NewUserMessage ''weather?'',
            \<lparr>Role_Msg = ''user'',
             Content_Msg =
               [zero_ContentBlock\<lparr>Type_CB := ''tool_result'', ToolUseID_CB := ''t1'',
                                  Content_CB := ''65F sunny''\<rparr>,
                zero_ContentBlock\<lparr>Type_CB := ''tool_result'', ToolUseID_CB := ''t2'',
                                  Content_CB := ''tool not found''\<rparr>]\<rparr>],
           [\<lparr>toolUseId = ''t1'', content_TR = ''65F sunny'', isError = False\<rparr>,
            \<lparr>toolUseId = ''t2'', content_TR = ''tool not found'', isError = True\<rparr>])"
proof -
  let ?registry = "\<lambda>name. if name = ''get_weather''
                           then Some (\<lambda>input :: json option. Inr ''65F sunny'' :: string + string)
                           else None"
  let ?response =
    "\<lparr>ID_CMR = ''msg_1'', Type_CMR = ''message'', Role_CMR = ''assistant'',
      Content_CMR =
        [zero_ContentBlock\<lparr>Type_CB := ''text'', Text_CB := ''Let me check.''\<rparr>,
         zero_ContentBlock\<lparr>Type_CB := ''tool_use'', ID_CB := ''t1'', Name_CB := ''get_weather'',
                           Input_CB := Some (JObj [(''city'', JStr ''SF'')])\<rparr>,
         zero_ContentBlock\<lparr>Type_CB := ''tool_use'', ID_CB := ''t2'', Name_CB := ''missing_tool''\<rparr>],
      Model_CMR = ''claude-sonnet-4-20250514'', StopReason_CMR = ''tool_use'',
      StopSequence_CMR = '''', Usage_CMR = \<lparr>InputTokens_U = 10, OutputTokens_U = 20\<rparr>\<rparr>"
  have uses: "GetToolUseBlocks (Content_CMR ?response)
      = [zero_ContentBlock\<lparr>Type_CB := ''tool_use'', ID_CB := ''t1'', Name_CB := ''get_weather'',
                           Input_CB := Some (JObj [(''city'', JStr ''SF'')])\<rparr>,
         zero_ContentBlock\<lparr>Type_CB := ''tool_use'', ID_CB := ''t2'', Name_CB := ''missing_tool''\<rparr>]"
    by (simp add: GetToolUseBlocks_def zero_ContentBlock_def)
  have stop: "StopReason_CMR ?response = ''tool_use''" by simp
  have ne: "GetToolUseBlocks (Content_CMR ?response) \<noteq> []" by (simp only: uses) simp
  from C1_tool_results_follow_tool_uses [OF stop ne, of ?registry "[NewUserMessage ''weather?'']"]
  obtain msg results where
    "tool_loop_turn ?registry [NewUserMessage ''weather?''] ?response
     = Some ([NewUserMessage ''weather?''] @ [msg], results)"
    by blast
  moreover have
    "tool_loop_turn ?registry [NewUserMessage ''weather?''] ?response
     = Some ([NewUserMessage ''weather?'',
            \<lparr>Role_Msg = ''user'',
             Content_Msg =
               [zero_ContentBlock\<lparr>Type_CB := ''tool_result'', ToolUseID_CB := ''t1'',
                                  Content_CB := ''65F sunny''\<rparr>,
                zero_ContentBlock\<lparr>Type_CB := ''tool_result'', ToolUseID_CB := ''t2'',
                                  Content_CB := ''tool not found''\<rparr>]\<rparr>],
           [\<lparr>toolUseId = ''t1'', content_TR = ''65F sunny'', isError = False\<rparr>,
            \<lparr>toolUseId = ''t2'', content_TR = ''tool not found'', isError = True\<rparr>])"
    unfolding tool_loop_turn_def uses
    by (simp add: StopReasonToolUse_def tool_result_message_def NewToolResultMessage_def
        invoke_tool_def zero_ContentBlock_def RoleUser_pkg_def)
  ultimately show ?thesis by simp
qed

section \<open>Parse failures in the server loop (claim C2)\<close>

lemma Read_parse_failure:
  assumes "\<not> closed t" and "reader t = line # rest" and "decode line = Inl err"
  shows "Read decode t
         = (Inl (Wrapped ''failed to parse request: '' err ''''), t\<lparr>reader := rest\<rparr>)"
  using assms by (simp add: Read_def)

lemma Serve_iteration_parse_failure:
  assumes "\<not> closed (transport s)" and "reader (transport s) = line # rest"
    and "decode line = Inl err"
  shows "Serve_iteration decode None False s
         = (Continue,
            s\<lparr>transport := (transport s)
                 \<lparr>reader := rest,
                  writer := writer (transport s)
                    @ [[(''jsonrpc'', JStr ''2.0''),
                        (''error'', JObj [(''code'', JNum (- 32700)),
                                          (''message'', JStr (''failed to parse request: ''
                                                              @ Error_string err))])]]\<rparr>\<rparr>)"
  using assms
  by (simp add: Serve_iteration_def Read_def Write_def NewErrorResponse_def NewParseError_def
      NewError_def marshal_Response_def marshal_Error_def omitempty_def JSONRPCVersion_def
      ParseError_def)

lemma Read_keeps_closed: "Read decode t = (r, t') \<Longrightarrow> closed t' = closed t"
  by (auto simp: Read_def split: if_splits list.splits sum.splits)

text \<open>
  Every failure of \<open>Read\<close> other than the end of the input (a line that does not decode, or
  a request with another protocol version) is answered on an open transport by one
  document with code -32700 and no identifier, and the loop continues.
\<close>

lemma Serve_iteration_read_failure:
  assumes "\<not> closed (transport s)" and "Read decode (transport s) = (Inl err, t)"
    and "err \<noteq> EOF"
  shows "Serve_iteration decode None False s
         = (Continue,
            s\<lparr>transport := t
                 \<lparr>writer := writer t
                    @ [[(''jsonrpc'', JStr ''2.0''),
                        (''error'', JObj [(''code'', JNum (- 32700)),
                                          (''message'', JStr (Error_string err))])]]\<rparr>\<rparr>)"
proof -
  have "\<not> closed t" using assms(1) Read_keeps_closed [OF assms(2)] by simp
  then show ?thesis
    using assms(2,3)
    by (simp add: Serve_iteration_def Write_def NewErrorResponse_def NewParseError_def
        NewError_def marshal_Response_def marshal_Error_def omitempty_def JSONRPCVersion_def
        ParseError_def)
qed

text \<open>
  C2: the line \<^verbatim>\<open>{ not json\<close>, followed by a well-formed ping request. The decoder rejects
  the first line and decodes the second. The loop writes exactly one document for the
  first line, with error code -32700, and goes on to read the second line (the
  connection stays open), as the claim says. But the document has no member \<^verbatim>\<open>"id"\<close>:
  the server passes a nil identifier to \<open>NewErrorResponse\<close>, and the \<open>ID\<close> field of
  \<open>Response\<close> is tagged \<^verbatim>\<open>omitempty\<close>, so the member is left out instead of being written
  as \<^verbatim>\<open>"id":null\<close>.
\<close>

theorem C2_parse_error_response_has_no_id:
  "Serve_n 2
     (\<lambda>line. if line = ''{ not json''
             then Inl (ErrorString ''invalid character 'n' looking for beginning of object key string'')
             else Inr \<lparr>JSONRPC_Request = ''2.0'', ID_Request = Some (JNum 2),
                       Method = ''ping'', Params = None\<rparr>)
     \<lparr>transport = \<lparr>reader = [''{ not json'', ''{\"jsonrpc\":\"2.0\",\"id\":2,\"method\":\"ping\"}''],
                   writer = [], closed = False\<rparr>,
      spawned = []\<rparr>
   = (Continue,
      \<lparr>transport =
         \<lparr>reader = [],
          writer = [[(''jsonrpc'', JStr ''2.0''),
                     (''error'',
                      JObj [(''code'', JNum (- 32700)),
                            (''message'',
                             JStr ''failed to parse request: invalid character 'n' looking for beginning of object key string'')])]],
          closed = False\<rparr>,
       spawned = [\<lparr>JSONRPC_Request = ''2.0'', ID_Request = Some (JNum 2),
                   Method = ''ping'', Params = None\<rparr>]\<rparr>)
   \<and> \<not> has_member ''id''
         [(''jsonrpc'', JStr ''2.0''),
          (''error'',
           JObj [(''code'', JNum (- 32700)),
                 (''message'',
                  JStr ''failed to parse request: invalid character 'n' looking for beginning of object key string'')])]"
  by (simp add: numeral_2_eq_2 Serve_iteration_def Read_def Write_def NewErrorResponse_def
      NewParseError_def NewError_def marshal_Response_def marshal_Error_def omitempty_def
      JSONRPCVersion_def ParseError_def has_member_def)

section \<open>Error codes (claim C3)\<close>

text \<open>
  C3, as stated, asks every error-code enumeration of the program to give ToolNotFound the
  value -32002 (and ResourceNotFound -32003, PromptNotFound -32004). The enumeration of the
  value-object package gives its ToolNotFound the value -32001, the value that the protocol
  package gives to SessionNotFound.
\<close>

theorem C3_valueobjects_ToolNotFound_counterexample:
  "\<not> (ToolNotFound = - 32002 \<and> ErrorCodeToolNotFound = - 32002)"
  by (simp add: ErrorCodeToolNotFound_def)

text \<open>
  C3, amended: the enumeration of the protocol package (pkg/mcp) assigns exactly the
  spec's values to the ten names. The MCPErrorCode enumeration of the value-object package
  agrees with it on the five JSON-RPC standard codes only: there ToolNotFound is -32001,
  ResourceNotFound is -32002 and PromptNotFound is -32003, the values -32004 and -32005
  belong to ToolExecutionError and ResourceReadError, and no SessionNotFound or
  InvalidSessionState code is declared.
\<close>

theorem C3_error_code_values:
  "ParseError = - 32700 \<and> InvalidRequest = - 32600 \<and> MethodNotFound = - 32601
   \<and> InvalidParams = - 32602 \<and> InternalError = - 32603
   \<and> SessionNotFound = - 32001 \<and> ToolNotFound = - 32002 \<and> ResourceNotFound = - 32003
   \<and> PromptNotFound = - 32004 \<and> InvalidSessionState = - 32005
   \<and> ErrorCodeParseError = ParseError \<and> ErrorCodeInvalidRequest = InvalidRequest
   \<and> ErrorCodeMethodNotFound = MethodNotFound \<and> ErrorCodeInvalidParams = InvalidParams
   \<and> ErrorCodeInternalError = InternalError
   \<and> ErrorCodeToolNotFound = - 32001 \<and> ErrorCodeResourceNotFound = - 32002
   \<and> ErrorCodePromptNotFound = - 32003
   \<and> Message_MCPErrorCode SessionNotFound = ''Tool not found''
   \<and> Message_MCPErrorCode PromptNotFound = ''Tool execution error''
   \<and> Message_MCPErrorCode InvalidSessionState = ''Resource read error''"
  by (simp add: mcp_code_defs vo_code_defs Message_MCPErrorCode_def)

section \<open>The retry predicate (claim C4)\<close>

lemma IsRetryable_APIErr:
  "IsRetryable (APIErr a)
   = (Type a = ''rate_limit_error'' \<or> Type a = ''overloaded_error'' \<or> Type a = ''api_error'')"
  by (simp add: IsRetryable_def Retryable_def)

lemma IsRetryable_Wrapped: "IsRetryable (Wrapped before e after) = IsRetryable e"
  by (simp add: IsRetryable_def)

lemma IsRetryable_characterisation:
  "IsRetryable err
   = (\<exists>a. errors_As_APIError err = Some a
          \<and> (Type a = ''rate_limit_error'' \<or> Type a = ''overloaded_error''
              \<or> Type a = ''api_error''))"
  by (cases "errors_As_APIError err") (simp_all add: IsRetryable_def Retryable_def)

text \<open>
  C4: the predicate the client consults in its retry loop is \<open>isRetryableError\<close>. It answers
  false for every error, also for a rate-limited, an overloaded and a generic server error,
  where the claim says true, and where the package-level predicate \<open>IsRetryable\<close> of
  pkg/claude, which the client does not call, answers true. For an authentication, a
  not-found and an invalid-request error and for a cancelled context both answer false.
\<close>

theorem C4_isRetryableError_is_constantly_false:
  "isRetryableError err = False
   \<and> IsRetryable (APIErr (NewAPIError ''rate_limit_error'' message statusCode)) = True
   \<and> IsRetryable (APIErr (NewAPIError ''overloaded_error'' message statusCode)) = True
   \<and> IsRetryable (APIErr (NewAPIError ''api_error'' message statusCode)) = True
   \<and> IsRetryable (APIErr (NewAPIError ''authentication_error'' message statusCode)) = False
   \<and> IsRetryable (APIErr (NewAPIError ''not_found_error'' message statusCode)) = False
   \<and> IsRetryable (APIErr (NewAPIError ''invalid_request_error'' message statusCode)) = False
   \<and> IsRetryable ContextCanceled = False
   \<and> IsRetryable (Sentinel ErrContextCancelled_pkg) = False"
  by (simp add: isRetryableError_def NewAPIError_def IsRetryable_def Retryable_def)

section \<open>Waiting between retries (claim C5)\<close>

lemma retry_loop_iteration:
  assumes "attempt \<le> MaxRetries c"
  shows "\<exists>res rest.
           retry_loop retryable c ctx upstream params attempt now err
           = (res,
              (if attempt > 0 then [Sleep (sleep_time (RetryDelay c) attempt)] else [])
              @ Call (MessagesNew params)
                  (if attempt > 0 then now + sleep_time (RetryDelay c) attempt else now)
              # rest)"
  using assms
  by (subst retry_loop.simps) (auto simp: Let_def split: sum.splits prod.splits)

lemma sleep_time_in_range:
  assumes "0 \<le> delay * n" and "delay * n < 2 ^ 63"
  shows "sleep_time delay n = delay * n"
proof -
  have "(delay * n + 2 ^ 63) mod 2 ^ 64 = delay * n + 2 ^ 63"
    using assms by (intro mod_pos_pos_trivial) auto
  then show ?thesis using assms by (simp add: sleep_time_def wrap64_def)
qed

text \<open>
  The body of the loop, for any retry predicate and any state of the context: the
  iteration for attempt n > 0 sleeps for retryDelay \<times> n (when the product fits a
  \<^verbatim>\<open>time.Duration\<close>) and then issues the upstream call at the instant the sleep ends. The
  context does not occur in the effects: \<^verbatim>\<open>time.Sleep\<close> cannot be interrupted by it.
\<close>

lemma retry_loop_wait:
  assumes "0 < n" and "n \<le> MaxRetries c"
    and "0 \<le> RetryDelay c * n" and "RetryDelay c * n < 2 ^ 63"
  shows "\<exists>res rest.
           retry_loop retryable c ctx upstream params n now err
           = (res, Sleep (RetryDelay c * n)
                   # Call (MessagesNew params) (now + RetryDelay c * n) # rest)"
  using retry_loop_iteration [OF assms(2), of retryable ctx upstream params now err]
    sleep_time_in_range [OF assms(3,4)] assms(1)
  by simp

text \<open>
  No exit of the loop returns the client's cancellation error \<open>ErrContextCancelled\<close>,
  whatever the retry predicate, the context and the upstream: the loop fails with
  \<open>ErrAPIError\<close> or \<open>ErrMaxRetriesExceeded\<close> only.
\<close>

lemma retry_loop_never_cancellation_error:
  "\<not> (case fst (retry_loop retryable c ctx upstream params attempt now err) of
        Failed e \<Rightarrow> errors_Is e ErrContextCancelled
      | _ \<Rightarrow> False)"
proof (induction retryable c ctx upstream params attempt now err rule: retry_loop.induct)
  case (1 retryable c ctx upstream params attempt now err)
  define now' where
    "now' = (if attempt > 0 then now + sleep_time (RetryDelay c) attempt else now)"
  show ?case
  proof (cases "attempt \<le> MaxRetries c")
    case False
    then show ?thesis
      by (subst retry_loop.simps) (simp split: option.splits)
  next
    case True
    show ?thesis
    proof (cases "upstream attempt (ctx_done ctx now')")
      case (Inr response)
      with True show ?thesis
        by (subst retry_loop.simps) (simp add: Let_def now'_def)
    next
      case (Inl e)
      show ?thesis
      proof (cases "retryable e")
        case False
        with True Inl show ?thesis
          by (subst retry_loop.simps) (simp add: Let_def now'_def)
      next
        case retry: True
        have ih: "\<not> (case fst (retry_loop retryable c ctx upstream params (attempt + 1) now'
                                  (Some e)) of
                       Failed e \<Rightarrow> errors_Is e ErrContextCancelled
                     | _ \<Rightarrow> False)"
          using "1.IH" [OF True refl now'_def Inl] retry by simp
        with True Inl retry show ?thesis
          by (subst retry_loop.simps)
             (auto simp: Let_def now'_def split: prod.splits if_splits)
      qed
    qed
  qed
qed




section \<open>Responses carry a result or an error (claim C6)\<close>

lemma has_member_marshal_result:
  "has_member ''result'' (marshal_Response r) = (Result r \<noteq> None)"
  by (cases "ID r"; cases "Result r"; cases "Error r")
     (simp_all add: has_member_def marshal_Response_def omitempty_def)

lemma has_member_marshal_error:
  "has_member ''error'' (marshal_Response r) = (Error r \<noteq> None)"
  by (cases "ID r"; cases "Result r"; cases "Error r")
     (simp_all add: has_member_def marshal_Response_def omitempty_def)

lemma has_member_marshal_id:
  "has_member ''id'' (marshal_Response r) = (ID r \<noteq> None)"
  by (cases "ID r"; cases "Result r"; cases "Error r")
     (simp_all add: has_member_def marshal_Response_def omitempty_def)

text \<open>
  C6, as stated, fails for a success response whose result is the nil interface: the
  struct built by \<open>NewResponse\<close> then holds neither a result nor an error, and because the
  \<open>Result\<close> field is tagged \<^verbatim>\<open>omitempty\<close> its serialized form has no \<^verbatim>\<open>"result"\<close> member
  either. The input is \<^verbatim>\<open>NewResponse(1, nil)\<close>.
\<close>

theorem C6_nil_result_counterexample:
  "\<not> exactly_one_of_result_error (marshal_Response (NewResponse (Some (JNum 1)) None))
   \<and> Result (NewResponse (Some (JNum 1)) None) = None
   \<and> Error (NewResponse (Some (JNum 1)) None) = None
   \<and> marshal_Response (NewResponse (Some (JNum 1)) None)
       = [(''jsonrpc'', JStr ''2.0''), (''id'', JNum 1)]"
  by (simp add: exactly_one_of_result_error_def has_member_def marshal_Response_def
      NewResponse_def omitempty_def JSONRPCVersion_def)

text \<open>
  C6, amended: \<open>NewResponse\<close> leaves \<open>Error\<close> nil and stores the result it is given;
  \<open>NewErrorResponse\<close> leaves \<open>Result\<close> nil and stores the error it is given. So no
  constructed Response carries both, and its serialized form never has both members: a
  response of \<open>NewResponse\<close> has the member \<^verbatim>\<open>"result"\<close> exactly when the result passed in
  is not nil and never the member \<^verbatim>\<open>"error"\<close>; a response of \<open>NewErrorResponse\<close> has the
  member \<^verbatim>\<open>"error"\<close> exactly when the error passed in is not nil and never the member
  \<^verbatim>\<open>"result"\<close>. With a nil result (or a nil error) the response carries neither.
\<close>

theorem C6_result_xor_error_amended:
  "Error (NewResponse ident result) = None
   \<and> Result (NewResponse ident result) = result
   \<and> Result (NewErrorResponse ident err) = None
   \<and> Error (NewErrorResponse ident err) = err
   \<and> has_member ''result'' (marshal_Response (NewResponse ident result)) = (result \<noteq> None)
   \<and> \<not> has_member ''error'' (marshal_Response (NewResponse ident result))
   \<and> has_member ''error'' (marshal_Response (NewErrorResponse ident err)) = (err \<noteq> None)
   \<and> \<not> has_member ''result'' (marshal_Response (NewErrorResponse ident err))
   \<and> exactly_one_of_result_error (marshal_Response (NewResponse ident result))
       = (result \<noteq> None)
   \<and> exactly_one_of_result_error (marshal_Response (NewErrorResponse ident err))
       = (err \<noteq> None)"
  by (simp add: exactly_one_of_result_error_def has_member_marshal_result
      has_member_marshal_error NewResponse_def NewErrorResponse_def)

section \<open>Sampling parameters on the wire (claim C7)\<close>

text \<open>
  C7, as stated, fails at temperature 0: the request below is accepted by
  \<open>ValidateRequest\<close> and its temperature lies in the range [0, 2] of the data model and
  differs from 1, yet \<open>buildMessageParams\<close> leaves the temperature field unset, because the
  guard in the code also demands \<^verbatim>\<open>request.Temperature > 0\<close>.
\<close>

theorem C7_temperature_zero_counterexample:
  "\<not> ((Temperature_Params
          (buildMessageParams
             \<lparr>Model = ''claude-sonnet-4-20250514'', MaxTokens = 1024,
              Messages = [\<lparr>Role_M = ''user'', Content_M = []\<rparr>], SystemPrompt = '''',
              Temperature = 0, TopP = 1, TopK = 0, StopSequences = [], Tools = []\<rparr>) \<noteq> None)
        = (Temperature
             \<lparr>Model = ''claude-sonnet-4-20250514'', MaxTokens = 1024,
              Messages = [\<lparr>Role_M = ''user'', Content_M = []\<rparr>], SystemPrompt = '''',
              Temperature = 0, TopP = 1, TopK = 0, StopSequences = [], Tools = []\<rparr> \<noteq> 1))
   \<and> fst (ValidateRequest \<lparr>MaxTokens_Config = 4096, MaxRetries = 3, RetryDelay = 1000000000\<rparr>
            (Some \<lparr>Model = ''claude-sonnet-4-20250514'', MaxTokens = 1024,
                   Messages = [\<lparr>Role_M = ''user'', Content_M = []\<rparr>], SystemPrompt = '''',
                   Temperature = 0, TopP = 1, TopK = 0, StopSequences = [], Tools = []\<rparr>))
       = None"
  by (simp add: buildMessageParams_def ValidateRequest_def IsValid_Model_def Model_defs)

text \<open>
  C7, amended: the wire request built by \<open>buildMessageParams\<close> includes the temperature
  field exactly when temperature > 0 and temperature \<noteq> 1.0, the top_p field exactly when
  0 < topP < 1.0, and the top_k field exactly when topK > 0; an included field carries the
  request's value. So a parameter equal to the upstream default (1.0, 1.0, 0) is absent,
  and so is a temperature or a top_p of 0 or below.
\<close>

theorem C7_sampling_fields_amended:
  "(Temperature_Params (buildMessageParams request) \<noteq> None)
     = (Temperature request > 0 \<and> Temperature request \<noteq> 1)
   \<and> (TopP_Params (buildMessageParams request) \<noteq> None)
     = (TopP request > 0 \<and> TopP request < 1)
   \<and> (TopK_Params (buildMessageParams request) \<noteq> None) = (TopK request > 0)
   \<and> Temperature_Params (buildMessageParams request)
       = (if Temperature request > 0 \<and> Temperature request \<noteq> 1
          then Some (Temperature request) else None)
   \<and> TopP_Params (buildMessageParams request)
       = (if TopP request > 0 \<and> TopP request < 1 then Some (TopP request) else None)
   \<and> TopK_Params (buildMessageParams request)
       = (if TopK request > 0 then Some (TopK request) else None)"
  by (simp add: buildMessageParams_def)

section \<open>Validation guards (claim C8)\<close>

lemma ValidateRequest_rejects:
  assumes "request = None
           \<or> (\<exists>r. request = Some r \<and> (length (Messages r) = 0 \<or> \<not> IsValid_Model (Model r)))"
  shows "\<exists>err. ValidateRequest c request = (Some err, request) \<and> errors_Is err ErrInvalidRequest"
  using assms by (auto simp: ValidateRequest_def split: option.splits)

lemma ValidateRequest_error_is_invalid_request:
  "fst (ValidateRequest c request) = Some err \<Longrightarrow> errors_Is err ErrInvalidRequest"
  by (auto simp: ValidateRequest_def split: option.splits if_splits)

text \<open>
  C8. First part: when the request is nil, has no messages or names an invalid model, each
  of \<open>CreateMessage\<close>, \<open>CreateMessageStream\<close> and \<open>CountTokens\<close> returns an error that
  \<^verbatim>\<open>errors.Is\<close> the sentinel \<open>ErrInvalidRequest\<close>, with an empty list of effects (no upstream
  call, no sleep) and the request as it was. Second part: a request that passes these
  three checks and has MaxTokens \<le> 0 is accepted by \<open>ValidateRequest\<close> with MaxTokens
  replaced by the configured default; \<open>CreateMessage\<close> then runs its upstream loop on wire
  parameters whose max_tokens is the default, \<open>CreateMessageStream\<close> returns a stream
  opened with those parameters, and \<open>CountTokens\<close> goes on to its upstream call.
\<close>

theorem C8_validation_guards:
  "((request = None
      \<or> (\<exists>r. request = Some r \<and> (length (Messages r) = 0 \<or> \<not> IsValid_Model (Model r))))
     \<longrightarrow> (\<exists>err. errors_Is err ErrInvalidRequest
           \<and> CreateMessage c ctx up_new request = (Failed err, [], request)
           \<and> CreateMessageStream c sel up_stream request = (Failed err, [], request)
           \<and> CountTokens c up_count request = (Failed err, [], request)))
   \<and> ((IsValid_Model (Model r) \<and> length (Messages r) > 0 \<and> MaxTokens r \<le> 0)
     \<longrightarrow> (ValidateRequest c (Some r) = (None, Some (r\<lparr>MaxTokens := MaxTokens_Config c\<rparr>))
          \<and> MaxTokens_Params (buildMessageParams (r\<lparr>MaxTokens := MaxTokens_Config c\<rparr>))
              = MaxTokens_Config c
          \<and> CreateMessage c ctx up_new (Some r)
              = (fst (retry_loop isRetryableError c ctx up_new
                        (buildMessageParams (r\<lparr>MaxTokens := MaxTokens_Config c\<rparr>)) 0 0 None),
                 snd (retry_loop isRetryableError c ctx up_new
                        (buildMessageParams (r\<lparr>MaxTokens := MaxTokens_Config c\<rparr>)) 0 0 None),
                 Some (r\<lparr>MaxTokens := MaxTokens_Config c\<rparr>))
          \<and> snd (CreateMessageStream c sel up_stream (Some r))
              = ([Call (MessagesNewStreaming
                          (buildMessageParams (r\<lparr>MaxTokens := MaxTokens_Config c\<rparr>))) 0],
                 Some (r\<lparr>MaxTokens := MaxTokens_Config c\<rparr>))
          \<and> (\<exists>h. fst (CreateMessageStream c sel up_stream (Some r)) = Returned h)
          \<and> (\<exists>params. fst (snd (CountTokens c up_count (Some r)))
                         = [Call (MessagesCountTokens params) 0])
          \<and> snd (snd (CountTokens c up_count (Some r)))
              = Some (r\<lparr>MaxTokens := MaxTokens_Config c\<rparr>)))"
proof (intro conjI impI)
  assume rej: "request = None
      \<or> (\<exists>r. request = Some r \<and> (length (Messages r) = 0 \<or> \<not> IsValid_Model (Model r)))"
  from ValidateRequest_rejects [OF rej, of c] obtain err where
    v: "ValidateRequest c request = (Some err, request)" and i: "errors_Is err ErrInvalidRequest"
    by blast
  show "\<exists>err. errors_Is err ErrInvalidRequest
           \<and> CreateMessage c ctx up_new request = (Failed err, [], request)
           \<and> CreateMessageStream c sel up_stream request = (Failed err, [], request)
           \<and> CountTokens c up_count request = (Failed err, [], request)"
    using v i by (auto simp: CreateMessage_def CreateMessageStream_def CountTokens_def)
next
  assume ok: "IsValid_Model (Model r) \<and> length (Messages r) > 0 \<and> MaxTokens r \<le> 0"
  then show v: "ValidateRequest c (Some r) = (None, Some (r\<lparr>MaxTokens := MaxTokens_Config c\<rparr>))"
    by (simp add: ValidateRequest_def)
  show "MaxTokens_Params (buildMessageParams (r\<lparr>MaxTokens := MaxTokens_Config c\<rparr>))
              = MaxTokens_Config c"
    by (simp add: buildMessageParams_def)
  show "CreateMessage c ctx up_new (Some r)
              = (fst (retry_loop isRetryableError c ctx up_new
                        (buildMessageParams (r\<lparr>MaxTokens := MaxTokens_Config c\<rparr>)) 0 0 None),
                 snd (retry_loop isRetryableError c ctx up_new
                        (buildMessageParams (r\<lparr>MaxTokens := MaxTokens_Config c\<rparr>)) 0 0 None),
                 Some (r\<lparr>MaxTokens := MaxTokens_Config c\<rparr>))"
    using v by (simp add: CreateMessage_def split: prod.splits)
  show "snd (CreateMessageStream c sel up_stream (Some r))
              = ([Call (MessagesNewStreaming
                          (buildMessageParams (r\<lparr>MaxTokens := MaxTokens_Config c\<rparr>))) 0],
                 Some (r\<lparr>MaxTokens := MaxTokens_Config c\<rparr>))"
    using v by (simp add: CreateMessageStream_def Let_def)
  show "\<exists>h. fst (CreateMessageStream c sel up_stream (Some r)) = Returned h"
    using v by (simp add: CreateMessageStream_def Let_def)
  show "\<exists>params. fst (snd (CountTokens c up_count (Some r)))
                         = [Call (MessagesCountTokens params) 0]"
    using v by (simp add: CountTokens_def Let_def split: sum.splits)
  show "snd (snd (CountTokens c up_count (Some r)))
              = Some (r\<lparr>MaxTokens := MaxTokens_Config c\<rparr>)"
    using v by (simp add: CountTokens_def Let_def split: sum.splits)
qed

text \<open>
  The theorem at the nil request and at a request with a valid model, one message and
  MaxTokens 0, under a configuration whose default is 4096 and an upstream that answers
  the message call with an authentication error.
\<close>

theorem C8_validation_guards_witness:
  "(\<exists>err. errors_Is err ErrInvalidRequest
      \<and> CreateMessage \<lparr>MaxTokens_Config = 4096, MaxRetries = 3, RetryDelay = 1000000000\<rparr>
          \<lparr>cancel_at = None\<rparr>
          (\<lambda>attempt done. Inl (APIErr (NewAPIError ''authentication_error'' ''bad key'' 401)))
          None
        = (Failed err, [], None)
      \<and> CreateMessageStream \<lparr>MaxTokens_Config = 4096, MaxRetries = 3, RetryDelay = 1000000000\<rparr>
          (\<lambda>k. None) (\<lambda>params. \<lparr>events = [], stream_Err = None\<rparr>) None
        = (Failed err, [], None)
      \<and> CountTokens \<lparr>MaxTokens_Config = 4096, MaxRetries = 3, RetryDelay = 1000000000\<rparr>
          (\<lambda>params. Inr 7) None
        = (Failed err, [], None))
   \<and> ValidateRequest \<lparr>MaxTokens_Config = 4096, MaxRetries = 3, RetryDelay = 1000000000\<rparr>
        (Some \<lparr>Model = ''claude-sonnet-4-20250514'', MaxTokens = 0,
               Messages = [\<lparr>Role_M = ''user'', Content_M = []\<rparr>], SystemPrompt = '''',
               Temperature = 1, TopP = 1, TopK = 0, StopSequences = [], Tools = []\<rparr>)
      = (None,
         Some \<lparr>Model = ''claude-sonnet-4-20250514'', MaxTokens = 4096,
               Messages = [\<lparr>Role_M = ''user'', Content_M = []\<rparr>], SystemPrompt = '''',
               Temperature = 1, TopP = 1, TopK = 0, StopSequences = [], Tools = []\<rparr>)
   \<and> snd (snd (CountTokens \<lparr>MaxTokens_Config = 4096, MaxRetries = 3, RetryDelay = 1000000000\<rparr>
                  (\<lambda>params. Inr 7)
                  (Some \<lparr>Model = ''claude-sonnet-4-20250514'', MaxTokens = 0,
                         Messages = [\<lparr>Role_M = ''user'', Content_M = []\<rparr>],
                         SystemPrompt = '''', Temperature = 1, TopP = 1, TopK = 0,
                         StopSequences = [], Tools = []\<rparr>)))
      = Some \<lparr>Model = ''claude-sonnet-4-20250514'', MaxTokens = 4096,
              Messages = [\<lparr>Role_M = ''user'', Content_M = []\<rparr>], SystemPrompt = '''',
              Temperature = 1, TopP = 1, TopK = 0, StopSequences = [], Tools = []\<rparr>"
proof -
  let ?c = "\<lparr>MaxTokens_Config = 4096, MaxRetries = 3, RetryDelay = 1000000000\<rparr>"
  let ?r = "\<lparr>Model = ''claude-sonnet-4-20250514'', MaxTokens = 0,
             Messages = [\<lparr>Role_M = ''user'', Content_M = []\<rparr>], SystemPrompt = '''',
             Temperature = 1, TopP = 1, TopK = 0, StopSequences = [], Tools = []\<rparr>"
  have ok: "IsValid_Model (Model ?r) \<and> length (Messages ?r) > 0 \<and> MaxTokens ?r \<le> 0"
    by (simp add: IsValid_Model_def Model_defs)
  note inst = C8_validation_guards
    [of None ?c "\<lparr>cancel_at = None\<rparr>"
        "\<lambda>attempt done. Inl (APIErr (NewAPIError ''authentication_error'' ''bad key'' 401))"
        "\<lambda>k. None" "\<lambda>params. \<lparr>events = [], stream_Err = None\<rparr>" "\<lambda>params. Inr 7" ?r]
  from inst ok show ?thesis by simp
qed

section \<open>The event stream ends with the upstream error (claim C9)\<close>

lemma sends_append: "sends (xs @ ys) = sends xs @ sends ys"
  by (induction xs rule: sends.induct) auto

lemma sends_map_Send: "sends (map Send es) = es"
  by (induction es) auto

lemma step_well_formed:
  assumes "step s s'" and "well_formed s"
  shows "well_formed s'"
  using assms
proof (induction rule: step.induct)
  case (send s e rest)
  then obtain es where es: "Send e # rest = map Send es @ [CloseChan]"
    by (auto simp: well_formed_def)
  then obtain es' where "rest = map Send es' @ [CloseChan]"
    by (cases es) auto
  with send show ?case by (auto simp: well_formed_def)
next
  case (close s rest)
  then obtain es where es: "CloseChan # rest = map Send es @ [CloseChan]"
    by (auto simp: well_formed_def)
  then have "rest = []" by (cases es) auto
  with close show ?case by (auto simp: well_formed_def)
next
  case (recv s e b)
  then show ?case by (auto simp: well_formed_def)
qed

lemma step_stream_of: "step s s' \<Longrightarrow> stream_of s' = stream_of s"
  by (induction rule: step.induct) (auto simp: stream_of_def)

lemma step_weight: "step s s' \<Longrightarrow> weight s' < weight s"
  by (induction rule: step.induct) (auto simp: weight_def)

lemma step_capacity: "step s s' \<Longrightarrow> capacity (chan s') = capacity (chan s)"
  by (induction rule: step.induct) auto

lemma progress:
  assumes "well_formed s" and "\<not> finished s"
  shows "\<exists>s'. step s s'"
proof (cases "buffer (chan s)")
  case (Cons e b)
  then show ?thesis by (blast intro: step.recv)
next
  case Nil
  with assms have ne: "pending s \<noteq> []" by (simp add: finished_def)
  with assms obtain es where es: "pending s = map Send es @ [CloseChan]"
    and opn: "\<not> chan_closed (chan s)" and cap: "0 < capacity (chan s)"
    by (auto simp: well_formed_def)
  show ?thesis
  proof (cases es)
    case Nil
    with es opn show ?thesis by (auto intro: step.close)
  next
    case (Cons e es')
    with es have "pending s = Send e # (map Send es' @ [CloseChan])" by simp
    with opn cap \<open>buffer (chan s) = []\<close> show ?thesis
      by (auto intro!: exI step.send)
  qed
qed

lemma run_invariants:
  assumes "(step ^^ k) s0 s" and "well_formed s0"
  shows "well_formed s \<and> stream_of s = stream_of s0 \<and> k + weight s \<le> weight s0
         \<and> capacity (chan s) = capacity (chan s0)"
  using assms
proof (induction k arbitrary: s)
  case 0
  then show ?case by simp
next
  case (Suc k)
  then obtain m where m: "(step ^^ k) s0 m" and st: "step m s" by auto
  from Suc.IH [OF m Suc.prems(2)] st show ?case
    using step_well_formed [OF st] step_stream_of [OF st] step_weight [OF st]
      step_capacity [OF st]
    by auto
qed

lemma finished_received:
  assumes "finished s" shows "stream_of s = received s"
  using assms by (simp add: finished_def stream_of_def)

lemma forwarded_Cons:
  "forwarded (event # rest)
   = (case convertStreamEvent event of None \<Rightarrow> [] | Some se \<Rightarrow> [se]) @ forwarded rest"
  by (simp add: forwarded_def)

lemma producer_shape:
  "\<exists>pre suf x. producer sel k evs (Some err) = map Send pre @ [Send (error_event x), CloseChan]
      \<and> forwarded evs = pre @ suf
      \<and> ((\<forall>j. sel j = None) \<longrightarrow> pre = forwarded evs \<and> x = err)"
proof (induction evs arbitrary: k)
  case Nil
  show ?case
    by (rule exI [of _ "[]"], rule exI [of _ "[]"], rule exI [of _ err])
       (simp add: forwarded_def)
next
  case (Cons event rest)
  show ?case
  proof (cases "convertStreamEvent event")
    case None
    with Cons [of k] show ?thesis by (simp add: forwarded_Cons)
  next
    case (Some se)
    show ?thesis
    proof (cases "sel k")
      case None
      from Cons [of "Suc k"] obtain pre suf x where
        p: "producer sel (Suc k) rest (Some err) = map Send pre @ [Send (error_event x), CloseChan]"
        and f: "forwarded rest = pre @ suf"
        and a: "(\<forall>j. sel j = None) \<longrightarrow> pre = forwarded rest \<and> x = err"
        by blast
      have "producer sel k (event # rest) (Some err)
            = map Send (se # pre) @ [Send (error_event x), CloseChan]"
        using Some None p by simp
      moreover have "forwarded (event # rest) = (se # pre) @ suf"
        using Some f by (simp add: forwarded_Cons)
      moreover have "(\<forall>j. sel j = None) \<longrightarrow> se # pre = forwarded (event # rest) \<and> x = err"
        using Some a by (simp add: forwarded_Cons)
      ultimately show ?thesis by blast
    next
      case (Some ctxErr)
      have "producer sel k (event # rest) (Some err)
            = map Send [] @ [Send (error_event ctxErr), CloseChan]"
        using \<open>convertStreamEvent event = Some se\<close> Some by simp
      moreover have "forwarded (event # rest) = [] @ forwarded (event # rest)" by simp
      moreover have "\<not> (\<forall>j. sel j = None)" using Some by auto
      ultimately show ?thesis by blast
    qed
  qed
qed

text \<open>
  C9: \<open>CreateMessageStream\<close>, on a request that passes validation, returns a channel of
  capacity 100, empty and open, and starts the producer. When the upstream stream ends with
  the error \<open>err\<close>, the producer performs sends of forwarded events, then the send of one
  event whose Error field is set, then the close, and nothing else. That last event
  carries \<open>err\<close> itself when every select took its send case (the producer read the
  upstream to its end); when a select took the \<^verbatim>\<open>ctx.Done()\<close> case instead, the producer
  stopped there and the event carries the context's error. Whatever the interleaving of
  producer and consumer: the buffer never holds more than 100 events, a run has at most
  2 \<times> (number of forwarded events + 2) steps, a state that is not finished can always take a
  step, and in a finished state the channel is closed and the consumer has received
  exactly the forwarded events followed by the Error event.
\<close>

theorem C9_stream_error_is_terminal_event:
  assumes valid: "ValidateRequest c request = (None, Some r)"
    and err: "stream_Err (upstream (buildMessageParams r)) = Some err"
  shows "\<exists>h pre suf x.
           CreateMessageStream c sel upstream request
             = (Returned h, [Call (MessagesNewStreaming (buildMessageParams r)) 0], Some r)
           \<and> eventChan h = \<lparr>capacity = 100, buffer = [], chan_closed = False\<rparr>
           \<and> goroutine h = map Send pre @ [Send (error_event x), CloseChan]
           \<and> forwarded (events (upstream (buildMessageParams r))) = pre @ suf
           \<and> Error_Ev (error_event x) = Some x
           \<and> ((\<forall>j. sel j = None)
                \<longrightarrow> pre = forwarded (events (upstream (buildMessageParams r))) \<and> x = err)
           \<and> (\<forall>k s. (step ^^ k) (start h) s
                \<longrightarrow> k \<le> 2 * (length pre + 2)
                    \<and> length (buffer (chan s)) \<le> 100
                    \<and> (finished s \<longrightarrow> chan_closed (chan s)
                                      \<and> received s = pre @ [error_event x])
                    \<and> (\<not> finished s \<longrightarrow> (\<exists>s'. step s s')))"
proof -
  define h where "h = \<lparr>eventChan = (make_chan 100 :: ClaudeStreamEvent chan),
      goroutine = producer sel 0 (events (upstream (buildMessageParams r))) (Some err)\<rparr>"
  from producer_shape [of sel 0 "events (upstream (buildMessageParams r))" err]
  obtain pre suf x where
    p: "producer sel 0 (events (upstream (buildMessageParams r))) (Some err)
        = map Send pre @ [Send (error_event x), CloseChan]"
    and f: "forwarded (events (upstream (buildMessageParams r))) = pre @ suf"
    and a: "(\<forall>j. sel j = None)
            \<longrightarrow> pre = forwarded (events (upstream (buildMessageParams r))) \<and> x = err"
    by blast
  have call: "CreateMessageStream c sel upstream request
             = (Returned h, [Call (MessagesNewStreaming (buildMessageParams r)) 0], Some r)"
    using valid err by (simp add: CreateMessageStream_def Let_def h_def)
  have ch: "eventChan h = \<lparr>capacity = 100, buffer = [], chan_closed = False\<rparr>"
    by (simp add: h_def make_chan_def)
  have go: "goroutine h = map Send pre @ [Send (error_event x), CloseChan]"
    using p by (simp add: h_def)
  have wf: "well_formed (start h)"
    unfolding well_formed_def start_def using go ch
    by (auto intro: exI [of _ "pre @ [error_event x]"])
  have w0: "weight (start h) = 2 * (length pre + 2)"
    by (simp add: weight_def start_def go ch)
  have s0: "stream_of (start h) = pre @ [error_event x]"
    by (simp add: stream_of_def start_def go ch sends_append sends_map_Send)
  have runs: "k \<le> 2 * (length pre + 2)
                    \<and> length (buffer (chan s)) \<le> 100
                    \<and> (finished s \<longrightarrow> chan_closed (chan s)
                                      \<and> received s = pre @ [error_event x])
                    \<and> (\<not> finished s \<longrightarrow> (\<exists>s'. step s s'))"
    if run: "(step ^^ k) (start h) s" for k s
  proof -
    from run_invariants [OF run wf] have
      wfs: "well_formed s" and so: "stream_of s = stream_of (start h)"
      and wt: "k + weight s \<le> weight (start h)"
      and cp: "capacity (chan s) = capacity (chan (start h))"
      by auto
    have "capacity (chan s) = 100" using cp ch by (simp add: start_def)
    with wfs have "length (buffer (chan s)) \<le> 100" by (simp add: well_formed_def)
    moreover have "k \<le> 2 * (length pre + 2)" using wt w0 by simp
    moreover have "chan_closed (chan s) \<and> received s = pre @ [error_event x]" if "finished s"
      using that wfs so s0 finished_received [OF that]
      by (simp add: well_formed_def finished_def)
    moreover have "\<exists>s'. step s s'" if "\<not> finished s"
      using progress [OF wfs that] .
    ultimately show ?thesis by blast
  qed
  have ee: "Error_Ev (error_event x) = Some x" by (simp add: error_event_def)
  show ?thesis
    using call ch go f a runs ee by blast
qed

text \<open>
  The theorem at an upstream stream that delivers one text delta and one event of a type
  the client does not forward, and then fails with \<^verbatim>\<open>unexpected EOF\<close>, under a context that
  is never cancelled.
\<close>

theorem C9_stream_error_witness:
  "\<exists>h. CreateMessageStream
          \<lparr>MaxTokens_Config = 4096, MaxRetries = 3, RetryDelay = 1000000000\<rparr>
          (\<lambda>k. None)
          (\<lambda>params.
             \<lparr>events =
                [\<lparr>Type_SE = ''content_block_delta'', Index_SE = 0, Message_ID = '''',
                  Message_Model = '''', ContentBlock_Type = '''', ContentBlock_Text = '''',
                  ContentBlock_ID = '''', ContentBlock_Name = '''', Delta_Type = ''text_delta'',
                  Delta_Text = ''Hel'', Delta_StopReason = '''', Usage_OutputTokens_SE = 0\<rparr>,
                 \<lparr>Type_SE = ''ping'', Index_SE = 0, Message_ID = '''',
                  Message_Model = '''', ContentBlock_Type = '''', ContentBlock_Text = '''',
                  ContentBlock_ID = '''', ContentBlock_Name = '''', Delta_Type = '''',
                  Delta_Text = '''', Delta_StopReason = '''', Usage_OutputTokens_SE = 0\<rparr>],
              stream_Err = Some (ErrorString ''unexpected EOF'')\<rparr>)
          (Some \<lparr>Model = ''claude-sonnet-4-20250514'', MaxTokens = 1024,
                 Messages = [\<lparr>Role_M = ''user'', Content_M = []\<rparr>], SystemPrompt = '''',
                 Temperature = 1, TopP = 1, TopK = 0, StopSequences = [], Tools = []\<rparr>)
        = (Returned h,
           [Call (MessagesNewStreaming
                    (buildMessageParams
                       \<lparr>Model = ''claude-sonnet-4-20250514'', MaxTokens = 1024,
                        Messages = [\<lparr>Role_M = ''user'', Content_M = []\<rparr>],
                        SystemPrompt = '''', Temperature = 1, TopP = 1, TopK = 0,
                        StopSequences = [], Tools = []\<rparr>)) 0],
           Some \<lparr>Model = ''claude-sonnet-4-20250514'', MaxTokens = 1024,
                 Messages = [\<lparr>Role_M = ''user'', Content_M = []\<rparr>], SystemPrompt = '''',
                 Temperature = 1, TopP = 1, TopK = 0, StopSequences = [], Tools = []\<rparr>)
      \<and> capacity (eventChan h) = 100
      \<and> goroutine h
          = [Send (empty_event
                     \<lparr>Type_Ev := ''content_block_delta'', Index_Ev := 0,
                      Delta_Ev := Some \<lparr>Type_D = ''text_delta'', Text_D = ''Hel'',
                                        StopReason_D = ''''\<rparr>\<rparr>),
             Send (error_event (ErrorString ''unexpected EOF'')),
             CloseChan]
      \<and> (\<forall>k s. (step ^^ k) (start h) s
            \<longrightarrow> k \<le> 6
                \<and> length (buffer (chan s)) \<le> 100
                \<and> (finished s
                     \<longrightarrow> chan_closed (chan s)
                         \<and> received s
                             = [empty_event
                                  \<lparr>Type_Ev := ''content_block_delta'', Index_Ev := 0,
                                   Delta_Ev := Some \<lparr>Type_D = ''text_delta'', Text_D = ''Hel'',
                                                     StopReason_D = ''''\<rparr>\<rparr>,
                                error_event (ErrorString ''unexpected EOF'')])
                \<and> (\<not> finished s \<longrightarrow> (\<exists>s'. step s s')))"
proof -
  let ?c = "\<lparr>MaxTokens_Config = 4096, MaxRetries = 3, RetryDelay = 1000000000\<rparr>"
  let ?r = "\<lparr>Model = ''claude-sonnet-4-20250514'', MaxTokens = 1024,
             Messages = [\<lparr>Role_M = ''user'', Content_M = []\<rparr>], SystemPrompt = '''',
             Temperature = 1, TopP = 1, TopK = 0, StopSequences = [], Tools = []\<rparr>"
  let ?evs = "[\<lparr>Type_SE = ''content_block_delta'', Index_SE = 0, Message_ID = '''',
                  Message_Model = '''', ContentBlock_Type = '''', ContentBlock_Text = '''',
                  ContentBlock_ID = '''', ContentBlock_Name = '''', Delta_Type = ''text_delta'',
                  Delta_Text = ''Hel'', Delta_StopReason = '''', Usage_OutputTokens_SE = 0\<rparr>,
                 \<lparr>Type_SE = ''ping'', Index_SE = 0, Message_ID = '''',
                  Message_Model = '''', ContentBlock_Type = '''', ContentBlock_Text = '''',
                  ContentBlock_ID = '''', ContentBlock_Name = '''', Delta_Type = '''',
                  Delta_Text = '''', Delta_StopReason = '''', Usage_OutputTokens_SE = 0\<rparr>]"
  let ?up = "\<lambda>params :: MessageNewParams.
               \<lparr>events = ?evs, stream_Err = Some (ErrorString ''unexpected EOF'')\<rparr>"
  let ?delta = "empty_event
                  \<lparr>Type_Ev := ''content_block_delta'', Index_Ev := 0,
                   Delta_Ev := Some \<lparr>Type_D = ''text_delta'', Text_D = ''Hel'',
                                     StopReason_D = ''''\<rparr>\<rparr>"
  have valid: "ValidateRequest ?c (Some ?r) = (None, Some ?r)"
    by (simp add: ValidateRequest_def IsValid_Model_def Model_defs)
  have err: "stream_Err (?up (buildMessageParams ?r)) = Some (ErrorString ''unexpected EOF'')"
    by simp
  have fw: "forwarded (events (?up (buildMessageParams ?r))) = [?delta]"
    by (simp add: forwarded_def convertStreamEvent_def)
  from C9_stream_error_is_terminal_event [OF valid err, of "\<lambda>k. None"]
  obtain h pre suf x where
    call: "CreateMessageStream ?c (\<lambda>k. None) ?up (Some ?r)
           = (Returned h, [Call (MessagesNewStreaming (buildMessageParams ?r)) 0], Some ?r)"
    and ch: "eventChan h = \<lparr>capacity = 100, buffer = [], chan_closed = False\<rparr>"
    and go: "goroutine h = map Send pre @ [Send (error_event x), CloseChan]"
    and all: "(\<forall>j. (\<lambda>k. None :: go_error option) j = None)
              \<longrightarrow> pre = forwarded (events (?up (buildMessageParams ?r)))
                  \<and> x = ErrorString ''unexpected EOF''"
    and runs: "\<forall>k s. (step ^^ k) (start h) s
                \<longrightarrow> k \<le> 2 * (length pre + 2)
                    \<and> length (buffer (chan s)) \<le> 100
                    \<and> (finished s \<longrightarrow> chan_closed (chan s)
                                      \<and> received s = pre @ [error_event x])
                    \<and> (\<not> finished s \<longrightarrow> (\<exists>s'. step s s'))"
    by blast
  from all fw have pre: "pre = [?delta]" and x: "x = ErrorString ''unexpected EOF''"
    by simp_all
  have "capacity (eventChan h) = 100" using ch by simp
  moreover have "goroutine h = [Send ?delta, Send (error_event (ErrorString ''unexpected EOF'')),
                                CloseChan]"
    using go pre x by simp
  moreover have "\<forall>k s. (step ^^ k) (start h) s
            \<longrightarrow> k \<le> 6
                \<and> length (buffer (chan s)) \<le> 100
                \<and> (finished s
                     \<longrightarrow> chan_closed (chan s)
                         \<and> received s = [?delta, error_event (ErrorString ''unexpected EOF'')])
                \<and> (\<not> finished s \<longrightarrow> (\<exists>s'. step s s'))"
    using runs pre x by simp
  ultimately show ?thesis using call by blast
qed

section \<open>ValidateRequest writes through its argument (claim C10)\<close>

text \<open>
  C10, as stated, fails for a request that \<open>ValidateRequest\<close> rejects: the function returns
  at the failed check, before it reaches the assignment. The request below names a model
  that is not in the enumeration and has MaxTokens 0; after the call its MaxTokens is
  still 0, not the configured default 4096.
\<close>

theorem C10_rejected_request_counterexample:
  "MaxTokens \<lparr>Model = ''gpt-4'', MaxTokens = 0,
              Messages = [\<lparr>Role_M = ''user'', Content_M = []\<rparr>], SystemPrompt = '''',
              Temperature = 1, TopP = 1, TopK = 0, StopSequences = [], Tools = []\<rparr> \<le> 0
   \<and> map_option MaxTokens
        (snd (ValidateRequest \<lparr>MaxTokens_Config = 4096, MaxRetries = 3, RetryDelay = 1000000000\<rparr>
               (Some \<lparr>Model = ''gpt-4'', MaxTokens = 0,
                      Messages = [\<lparr>Role_M = ''user'', Content_M = []\<rparr>], SystemPrompt = '''',
                      Temperature = 1, TopP = 1, TopK = 0, StopSequences = [], Tools = []\<rparr>)))
       \<noteq> Some (MaxTokens_Config
                  \<lparr>MaxTokens_Config = 4096, MaxRetries = 3, RetryDelay = 1000000000\<rparr>)"
  by (simp add: ValidateRequest_def IsValid_Model_def Model_defs)

text \<open>
  C10, amended: \<open>ValidateRequest\<close> mutates its argument in place exactly when the request
  passes the model and message checks and has MaxTokens \<le> 0: it then overwrites the
  caller's request.MaxTokens with the configured default and leaves every other field
  unchanged. Every other request (one it rejects, or one with MaxTokens > 0) it leaves
  entirely unchanged. \<open>CountTokens\<close>, \<open>CreateMessage\<close> and \<open>CreateMessageStream\<close> leave the
  request as \<open>ValidateRequest\<close> leaves it, so the read-only \<open>CountTokens\<close> can modify the
  request passed to it.
\<close>

theorem C10_ValidateRequest_frame_amended:
  "snd (ValidateRequest c (Some r))
     = Some (if IsValid_Model (Model r) \<and> length (Messages r) > 0 \<and> MaxTokens r \<le> 0
             then r\<lparr>MaxTokens := MaxTokens_Config c\<rparr> else r)
   \<and> snd (ValidateRequest c None) = None
   \<and> snd (snd (CountTokens c up_count (Some r))) = snd (ValidateRequest c (Some r))
   \<and> snd (snd (CreateMessage c ctx up_new (Some r))) = snd (ValidateRequest c (Some r))
   \<and> snd (snd (CreateMessageStream c sel up_stream (Some r)))
       = snd (ValidateRequest c (Some r))"
  by (simp add: ValidateRequest_def CountTokens_def CreateMessage_def CreateMessageStream_def
      Let_def split: sum.splits prod.splits)

text \<open>
  The theorem at a request with a valid model, one message and MaxTokens -5, counted by
  \<open>CountTokens\<close> against an upstream that answers 7: the caller's request comes back with
  MaxTokens 4096 and its other fields as they were.
\<close>

theorem C10_ValidateRequest_frame_witness:
  "snd (snd (CountTokens \<lparr>MaxTokens_Config = 4096, MaxRetries = 3, RetryDelay = 1000000000\<rparr>
               (\<lambda>params. Inr 7)
               (Some \<lparr>Model = ''claude-3-opus-20240229'', MaxTokens = - 5,
                      Messages = [\<lparr>Role_M = ''user'', Content_M = []\<rparr>],
                      SystemPrompt = ''be brief'', Temperature = 0.5, TopP = 0.9, TopK = 40,
                      StopSequences = [''END''], Tools = []\<rparr>)))
   = Some \<lparr>Model = ''claude-3-opus-20240229'', MaxTokens = 4096,
           Messages = [\<lparr>Role_M = ''user'', Content_M = []\<rparr>],
           SystemPrompt = ''be brief'', Temperature = 0.5, TopP = 0.9, TopK = 40,
           StopSequences = [''END''], Tools = []\<rparr>"
proof -
  let ?c = "\<lparr>MaxTokens_Config = 4096, MaxRetries = 3, RetryDelay = 1000000000\<rparr>"
  let ?r = "\<lparr>Model = ''claude-3-opus-20240229'', MaxTokens = - 5,
             Messages = [\<lparr>Role_M = ''user'', Content_M = []\<rparr>],
             SystemPrompt = ''be brief'', Temperature = 0.5, TopP = 0.9, TopK = 40,
             StopSequences = [''END''], Tools = []\<rparr>"
  have valid: "IsValid_Model (Model ?r)" by (simp add: IsValid_Model_def Model_defs)
  from C10_ValidateRequest_frame_amended [of ?c ?r "\<lambda>params. Inr 7"]
  have "snd (snd (CountTokens ?c (\<lambda>params. Inr 7) (Some ?r)))
        = Some (if IsValid_Model (Model ?r) \<and> length (Messages ?r) > 0 \<and> MaxTokens ?r \<le> 0
                then ?r\<lparr>MaxTokens := MaxTokens_Config ?c\<rparr> else ?r)"
    by simp
  with valid show ?thesis by simp
qed

end
